theory Spec2Isabelle
  imports Complex_Main
begin

section \<open>Strings and numbers as the JavaScript sources use them\<close>

text \<open>
  The sources are \<^verbatim>\<open>simulation/js/ui-controller.js\<close> (the per-NF command terminal: ping,
  address and port allocation) and \<^verbatim>\<open>simulation/js/docker.js\<close> (the compose terminal:
  bring-up, stop, stabilization timers, UPF wiring). JavaScript strings are modelled as
  \<^typ>\<open>string\<close>; the decorative non-ASCII glyphs of the terminal texts are left out of the
  literals. Integers that the code prints are rendered by \<open>showNat\<close> and \<open>showInt\<close>.
  \<open>Math.random()\<close> is a sequence \<open>rand :: nat \<Rightarrow> real\<close> of draws from the unit interval
  together with the index of the next draw; the rounding of IEEE doubles is not modelled.
\<close>

definition digitChar :: "nat \<Rightarrow> char" where
  "digitChar d = ''0123456789'' ! d"

function showNat :: "nat \<Rightarrow> string" where
  "showNat n = (if n < 10 then [digitChar n] else showNat (n div 10) @ [digitChar (n mod 10)])"
  by pat_completeness auto
termination
  by (relation "measure id") auto

declare showNat.simps [simp del]

definition showInt :: "int \<Rightarrow> string" where
  "showInt i = (if i < 0 then CHR ''-'' # showNat (nat (- i)) else showNat (nat i))"

text \<open>\<open>s.split(sep)\<close> for a one-character separator: never empty, \<open>''''\<close> gives \<open>['''']\<close>.\<close>

fun splitOn :: "char \<Rightarrow> string \<Rightarrow> string list" where
  "splitOn sep [] = [[]]"
| "splitOn sep (c # cs) =
     (if c = sep then [] # splitOn sep cs
      else (case splitOn sep cs of [] \<Rightarrow> [[c]] | p # ps \<Rightarrow> (c # p) # ps))"

text \<open>\<open>parts[i]\<close> inside a template literal: an index past the end prints \<open>undefined\<close>.\<close>

definition partText :: "string list \<Rightarrow> nat \<Rightarrow> string" where
  "partText parts i = (if i < length parts then parts ! i else ''undefined'')"

definition isDigit :: "char \<Rightarrow> bool" where
  "isDigit c = (c \<in> set ''0123456789'')"

text \<open>
  \<open>s.padEnd(n)\<close>, \<open>s.toLowerCase()\<close> and \<open>s.toUpperCase()\<close> (on ASCII), \<open>s.includes(sub)\<close>.
\<close>

definition padEnd :: "nat \<Rightarrow> string \<Rightarrow> string" where
  "padEnd n s = s @ replicate (n - length s) CHR '' ''"

definition lowerChar :: "char \<Rightarrow> char" where
  "lowerChar c =
     (case map_of (zip ''ABCDEFGHIJKLMNOPQRSTUVWXYZ'' ''abcdefghijklmnopqrstuvwxyz'') c of
        Some l \<Rightarrow> l
      | None \<Rightarrow> c)"

definition toLowerCase :: "string \<Rightarrow> string" where
  "toLowerCase s = map lowerChar s"



fun includesStr :: "string \<Rightarrow> string \<Rightarrow> bool" where
  "includesStr [] sub = (sub = [])"
| "includesStr (c # cs) sub = (take (length sub) (c # cs) = sub \<or> includesStr cs sub)"

section \<open>Data model\<close>

text \<open>
  A network function as both files read and write it. The presentation-only fields
  (position, colour, icon, capacity, load) play no part in any operation below and are left
  out. \<open>createdAt\<close> can be absent (\<open>None\<close>); the code tests it for truthiness.
\<close>

record nf_config =
  ipAddress :: string
  port :: int
  httpProtocol :: string

record nf =
  nf_id :: string
  nf_type :: string
  nf_name :: string
  config :: nf_config
  status :: string
  statusTimestamp :: int
  createdAt :: "int option"

type_synonym line = "string \<times> string"

section \<open>Reachability simulator (ui-controller.js)\<close>

text \<open>
  \<open>isValidIP\<close> tests the anchored regular expression
  \<^verbatim>\<open>^(?:(?:25[0-5]|2[0-4][0-9]|[01]?[0-9][0-9]?)\.){3}(?:25[0-5]|2[0-4][0-9]|[01]?[0-9][0-9]?)$\<close>:
  four dot-separated groups, each one of the three alternatives. As no alternative matches
  a dot, the groups are the pieces of \<open>splitOn\<close>.
\<close>

fun isOctet :: "string \<Rightarrow> bool" where
  "isOctet [a] = isDigit a"
| "isOctet [a, b] = (isDigit a \<and> isDigit b)"
| "isOctet [a, b, c] =
     ((a = CHR ''2'' \<and> b = CHR ''5'' \<and> c \<in> set ''012345'')
      \<or> (a = CHR ''2'' \<and> b \<in> set ''01234'' \<and> isDigit c)
      \<or> (a \<in> set ''01'' \<and> isDigit b \<and> isDigit c))"
| "isOctet _ = False"

definition isValidIP :: "string \<Rightarrow> bool" where
  "isValidIP ip = (let parts = splitOn CHR ''.'' ip in length parts = 4 \<and> list_all isOctet parts)"

definition getNetworkFromIP :: "string \<Rightarrow> string" where
  "getNetworkFromIP ip =
     (let parts = splitOn CHR ''.'' ip
      in partText parts 0 @ ''.'' @ partText parts 1 @ ''.'' @ partText parts 2)"

text \<open>
  \<open>isTargetReachable\<close>: every branch compares one draw \<open>r\<close> of \<open>Math.random()\<close> with its
  constant.
\<close>

definition isTargetReachable :: "nf list \<Rightarrow> nf \<Rightarrow> string \<Rightarrow> real \<Rightarrow> bool" where
  "isTargetReachable allNFs sourceNf targetIP r =
     (case find (\<lambda>n. ipAddress (config n) = targetIP) allNFs of
        None \<Rightarrow> r < 0.1
      | Some targetNf \<Rightarrow>
          if getNetworkFromIP (ipAddress (config sourceNf)) \<noteq> getNetworkFromIP targetIP
          then r < 0.2
          else if status sourceNf \<noteq> ''stable'' \<or> status targetNf \<noteq> ''stable''
          then r < 0.3
          else r < 0.9)"

text \<open>\<open>Math.round\<close> rounds half up, which is \<^const>\<open>round\<close>.\<close>

definition generateResponseTime :: "real \<Rightarrow> real \<Rightarrow> int" where
  "generateResponseTime r1 r2 =
     (let baseTime = r1 * 50 + 1; variation = (r2 - 0.5) * 10
      in max 1 (round (baseTime + variation)))"

text \<open>An entry of the \<open>results\<close> array: a reply (sequence, time, ttl) or a timeout (sequence).\<close>

datatype ping_result = Reply nat int nat | Timeout nat

fun success :: "ping_result \<Rightarrow> bool" where
  "success (Reply i t ttl) = True"
| "success (Timeout i) = False"

fun time :: "ping_result \<Rightarrow> int" where
  "time (Reply i t ttl) = t"
| "time (Timeout i) = 0"

definition showPingStatistics :: "string \<Rightarrow> ping_result list \<Rightarrow> line list" where
  "showPingStatistics target results =
     (let successful = filter success results;
          failed = filter (\<lambda>r. \<not> success r) results;
          lossPercentage = round (real (length failed) / real (length results) * 100)
      in [('''', ''blank''),
          (''Ping statistics for '' @ target @ '':'', ''info''),
          (''    Packets: Sent = '' @ showNat (length results) @ '', Received = ''
             @ showNat (length successful) @ '', Lost = '' @ showNat (length failed)
             @ '' ('' @ showInt lossPercentage @ ''% loss),'', ''info'')]
         @ (case map time successful of
              [] \<Rightarrow> []
            | t # ts \<Rightarrow>
                [(''Approximate round trip times in milli-seconds:'', ''info''),
                 (''    Minimum = '' @ showInt (fold min ts t) @ ''ms, Maximum = ''
                    @ showInt (fold max ts t) @ ''ms, Average = ''
                    @ showInt (round (real_of_int (sum_list (t # ts)) / real (length (t # ts))))
                    @ ''ms'', ''info'')]))"

text \<open>
  The packet loop of \<open>executeWindowsPing\<close>, over the sequence numbers. \<open>isReachable\<close> is the
  constant computed before the loop; a reply draws twice for its response time.
\<close>

fun pingLoop :: "bool \<Rightarrow> string \<Rightarrow> (nat \<Rightarrow> real) \<Rightarrow> nat \<Rightarrow> nat list
    \<Rightarrow> line list \<times> ping_result list \<times> nat" where
  "pingLoop isReachable target rand k [] = ([], [], k)"
| "pingLoop isReachable target rand k (i # is) =
     (if isReachable then
        (let responseTime = generateResponseTime (rand k) (rand (Suc k));
             ttl = 255;
             (ls, rs, k') = pingLoop isReachable target rand (Suc (Suc k)) is
         in ((''Reply from '' @ target @ '': bytes=32 time='' @ showInt responseTime
                @ ''ms TTL='' @ showNat ttl, ''success'') # ls,
             Reply i responseTime ttl # rs, k'))
      else
        (let (ls, rs, k') = pingLoop isReachable target rand k is
         in ((''Request timed out.'', ''error'') # ls, Timeout i # rs, k')))"

text \<open>
  How a call of \<open>executeWindowsPing\<close> ended: the two early returns, or the packet loop with
  its \<open>results\<close> array. The function returns the terminal lines it wrote, that outcome, and
  the index of the next unused draw.
\<close>

datatype ping_outcome = HostNotFound | TransmitFailed | Completed "ping_result list"

definition executeWindowsPing :: "nf list \<Rightarrow> nf \<Rightarrow> string \<Rightarrow> (nat \<Rightarrow> real) \<Rightarrow> nat
    \<Rightarrow> line list \<times> ping_outcome \<times> nat" where
  "executeWindowsPing allNFs nf target rand k =
     (if \<not> isValidIP target then
        ([(''Ping request could not find host '' @ target
             @ ''. Please check the name and try again.'', ''error'')], HostNotFound, k)
      else
        (let sourceNetwork = getNetworkFromIP (ipAddress (config nf));
             targetNetwork = getNetworkFromIP target
         in if sourceNetwork \<noteq> targetNetwork then
              ([(''Pinging '' @ target @ '' with 32 bytes of data:'', ''info''),
                ('''', ''blank''),
                (''PING: transmit failed. General failure.'', ''error''),
                ('''', ''blank''),
                (''Network Error: Cannot reach '' @ target, ''error''),
                (''Source subnet: '' @ sourceNetwork @ ''.0/24'', ''error''),
                (''Target subnet: '' @ targetNetwork @ ''.0/24'', ''error''),
                (''Reason: Cross-subnet communication not allowed'', ''error''),
                ('''', ''blank''),
                (''Ping statistics for '' @ target @ '':'', ''info''),
                (''    Packets: Sent = 4, Received = 0, Lost = 4 (100% loss),'', ''info'')],
               TransmitFailed, k)
            else
              (let isReachable = isTargetReachable allNFs nf target (rand k);
                   (ls, results, k') = pingLoop isReachable target rand (Suc k) [1, 2, 3, 4]
               in ([(''Pinging '' @ target @ '' with 32 bytes of data:'', ''info''),
                    ('''', ''blank'')] @ ls @ showPingStatistics target results,
                   Completed results, k'))))"




section \<open>Address and port allocator (ui-controller.js)\<close>

text \<open>
  The nested loops of \<open>getNextAvailableIP\<close> visit the pool in one fixed order (subnets in
  priority order, hosts 10 to 254 in each) and return at the first address that is not in
  use; \<open>r1\<close> and \<open>r2\<close> are the two draws of the fallback. \<open>getNextAvailablePort\<close> scans the
  ports 8080 to 9999 in the same way.
\<close>

definition subnets :: "string list" where
  "subnets = [''192.168.1'', ''192.168.2'', ''192.168.3'', ''192.168.4'']"

definition hostRange :: "nat list" where
  "hostRange = [10..<255]"

definition ipPool :: "string list" where
  "ipPool = concat (map (\<lambda>subnet. map (\<lambda>host. subnet @ ''.'' @ showNat host) hostRange) subnets)"

definition usedIPs :: "nf list \<Rightarrow> string set" where
  "usedIPs allNFs = set (map (\<lambda>n. ipAddress (config n)) allNFs)"

definition getNextAvailableIP :: "nf list \<Rightarrow> real \<Rightarrow> real \<Rightarrow> string" where
  "getNextAvailableIP allNFs r1 r2 =
     (case find (\<lambda>ip. ip \<notin> usedIPs allNFs) ipPool of
        Some ip \<Rightarrow> ip
      | None \<Rightarrow>
          (let randomSubnet = \<lfloor>r1 * 254\<rfloor> + 1;
               randomHost = \<lfloor>r2 * 244\<rfloor> + 10
           in ''192.168.'' @ showInt randomSubnet @ ''.'' @ showInt randomHost))"

definition usedPorts :: "nf list \<Rightarrow> int set" where
  "usedPorts allNFs = set (map (\<lambda>n. port (config n)) allNFs)"

definition portRange :: "int list" where
  "portRange = [8080..9999]"

definition getNextAvailablePort :: "nf list \<Rightarrow> real \<Rightarrow> int" where
  "getNextAvailablePort allNFs r =
     (case find (\<lambda>p. p \<notin> usedPorts allNFs) portRange of
        Some p \<Rightarrow> p
      | None \<Rightarrow> \<lfloor>r * 1000\<rfloor> + 8000)"

section \<open>Topology store and environment (docker.js)\<close>

text \<open>
  Connections, buses and bus links as \<^verbatim>\<open>docker.js\<close> reads and writes them (presentation
  fields left out). Where the fixture may leave a field out and the code tests it with
  \<open>||\<close>, the absent field is the empty string or 0, which are falsy as well.
\<close>

record connection =
  conn_id :: string
  sourceId :: string
  targetId :: string
  interfaceName :: string
  protocol :: string
  conn_status :: string
  conn_createdAt :: int
  isManual :: bool

record bus =
  bus_id :: string
  bus_name :: string
  bus_connections :: "string list"

record busConnection =
  bc_id :: string
  bc_nfId :: string
  bc_busId :: string
  bc_type :: string
  bc_interfaceName :: string
  bc_protocol :: string
  bc_status :: string
  bc_createdAt :: int

text \<open>
  The content of the data store, which is also the shape of the topology fixture
  \<^verbatim>\<open>one-click.json\<close>; a list the fixture leaves out is the empty list.
\<close>

record topology =
  nfs :: "nf list"
  connections :: "connection list"
  buses :: "bus list"
  busConnections :: "busConnection list"

text \<open>
  Modelled from the spec: the Topology Store (\<open>window.dataStore\<close>), whose file is not among
  the sources. The specification describes it as a simple keyed collection exposing
  add, update, remove, getById and getAll per entity kind; here each kind is a list in
  insertion order, \<open>add\<close> appends, \<open>getById\<close> returns the first entry with the key, \<open>update\<close>
  replaces that entry, \<open>remove\<close> deletes the entries with the key, and \<open>importData\<close> makes
  the imported topology the content of the store.
\<close>

fun replaceFirst :: "('a \<Rightarrow> bool) \<Rightarrow> 'a \<Rightarrow> 'a list \<Rightarrow> 'a list" where
  "replaceFirst P y [] = []"
| "replaceFirst P y (x # xs) = (if P x then y # xs else x # replaceFirst P y xs)"

definition getAllNFs :: "topology \<Rightarrow> nf list" where
  "getAllNFs s = nfs s"

definition getNFById :: "string \<Rightarrow> topology \<Rightarrow> nf option" where
  "getNFById i s = find (\<lambda>n. nf_id n = i) (nfs s)"

definition addNF :: "nf \<Rightarrow> topology \<Rightarrow> topology" where
  "addNF n s = s\<lparr>nfs := nfs s @ [n]\<rparr>"

definition updateNF :: "string \<Rightarrow> nf \<Rightarrow> topology \<Rightarrow> topology" where
  "updateNF i n s = s\<lparr>nfs := replaceFirst (\<lambda>x. nf_id x = i) n (nfs s)\<rparr>"

definition removeNF :: "string \<Rightarrow> topology \<Rightarrow> topology" where
  "removeNF i s = s\<lparr>nfs := filter (\<lambda>n. nf_id n \<noteq> i) (nfs s)\<rparr>"

definition getAllConnections :: "topology \<Rightarrow> connection list" where
  "getAllConnections s = connections s"

definition store_addConnection :: "connection \<Rightarrow> topology \<Rightarrow> topology" where
  "store_addConnection c s = s\<lparr>connections := connections s @ [c]\<rparr>"

definition getAllBuses :: "topology \<Rightarrow> bus list" where
  "getAllBuses s = buses s"

definition getBusById :: "string \<Rightarrow> topology \<Rightarrow> bus option" where
  "getBusById i s = find (\<lambda>b. bus_id b = i) (buses s)"

definition addBus :: "bus \<Rightarrow> topology \<Rightarrow> topology" where
  "addBus b s = s\<lparr>buses := buses s @ [b]\<rparr>"

definition removeBus :: "string \<Rightarrow> topology \<Rightarrow> topology" where
  "removeBus i s = s\<lparr>buses := filter (\<lambda>b. bus_id b \<noteq> i) (buses s)\<rparr>"

definition getAllBusConnections :: "topology \<Rightarrow> busConnection list" where
  "getAllBusConnections s = busConnections s"

definition addBusConnection :: "busConnection \<Rightarrow> topology \<Rightarrow> topology" where
  "addBusConnection c s = s\<lparr>busConnections := busConnections s @ [c]\<rparr>"

definition removeBusConnection :: "string \<Rightarrow> topology \<Rightarrow> topology" where
  "removeBusConnection i s = s\<lparr>busConnections := filter (\<lambda>c. bc_id c \<noteq> i) (busConnections s)\<rparr>"

definition importData :: "topology \<Rightarrow> topology \<Rightarrow> topology" where
  "importData d s = d"

text \<open>
  What a command finds outside the terminal object: the clock (\<open>Date.now()\<close>, one reading
  per command), the draws of \<open>Math.random()\<close>, the two number formats applied to a draw
  (\<open>toFixed(1)\<close> and \<open>toString(36)\<close>, which depend on the double's digits and are taken as
  they come), the result of fetching the fixture (\<open>None\<close> when the fetch fails or the
  response is not ok), and \<open>nfManager.createNetworkFunction\<close>, whose file is not among the
  sources: given a type and the store it returns the new NF and the store holding it, or
  \<open>None\<close> where the JavaScript returns null.
\<close>

record env =
  e_now :: int
  e_random :: "nat \<Rightarrow> real"
  e_toFixed1 :: "real \<Rightarrow> string"
  e_toString36 :: "real \<Rightarrow> string"
  e_fetch :: "topology option"
  e_createNetworkFunction :: "string \<Rightarrow> topology \<Rightarrow> (nf \<times> topology) option"

text \<open>
  A pending stabilization timer: the five-second \<open>setTimeout\<close> callbacks of the compose
  commands (which capture the NF's id and \<open>createdAt\<close>) and of \<open>docker start\<close> (the id).
\<close>

datatype timer = ComposeTimer string "int option" | StartTimer string

text \<open>
  The state of the terminal between commands: the store, the two network fields of the
  \<open>DockerTerminal\<close> object, the timers not yet fired, and the number of draws taken so far.
  A command runs to its end before anything else happens; its awaited delays are not
  modelled.
\<close>

record world =
  store :: topology
  oaiWorkshopNetworkExists :: bool
  oaiWorkshopCreatedTime :: "int option"
  timers :: "timer list"
  draws :: nat

definition nextRandom :: "env \<Rightarrow> world \<Rightarrow> real \<times> world" where
  "nextRandom e w = (e_random e (draws w), w\<lparr>draws := Suc (draws w)\<rparr>)"

text \<open>\<open>Math.random().toString(36).substr(2, n)\<close>.\<close>

definition randomSuffix :: "env \<Rightarrow> nat \<Rightarrow> real \<Rightarrow> string" where
  "randomSuffix e n r = take n (drop 2 (e_toString36 e r))"

text \<open>\<open>a || b\<close> on strings and on numbers.\<close>

definition orElse :: "string \<Rightarrow> string \<Rightarrow> string" where
  "orElse a b = (if a \<noteq> '''' then a else b)"

definition orElseInt :: "int \<Rightarrow> int \<Rightarrow> int" where
  "orElseInt a b = (if a \<noteq> 0 then a else b)"

definition truthyTime :: "int option \<Rightarrow> bool" where
  "truthyTime t = (case t of None \<Rightarrow> False | Some v \<Rightarrow> v \<noteq> 0)"

section \<open>Orchestration simulator (docker.js)\<close>

record nf_defaults =
  d_type :: string
  d_ipAddress :: string
  d_port :: int
  d_httpProtocol :: string

definition getDefaultNFConfigurations :: "nf_defaults list" where
  "getDefaultNFConfigurations =
     [\<lparr>d_type = ''NRF'', d_ipAddress = ''192.168.1.10'', d_port = 8080, d_httpProtocol = ''HTTP/2''\<rparr>,
      \<lparr>d_type = ''AMF'', d_ipAddress = ''192.168.1.20'', d_port = 8080, d_httpProtocol = ''HTTP/2''\<rparr>,
      \<lparr>d_type = ''SMF'', d_ipAddress = ''192.168.1.30'', d_port = 8080, d_httpProtocol = ''HTTP/2''\<rparr>,
      \<lparr>d_type = ''UPF'', d_ipAddress = ''192.168.1.40'', d_port = 8080, d_httpProtocol = ''HTTP/2''\<rparr>,
      \<lparr>d_type = ''AUSF'', d_ipAddress = ''192.168.1.50'', d_port = 8080, d_httpProtocol = ''HTTP/2''\<rparr>,
      \<lparr>d_type = ''UDM'', d_ipAddress = ''192.168.1.60'', d_port = 8080, d_httpProtocol = ''HTTP/2''\<rparr>,
      \<lparr>d_type = ''UDR'', d_ipAddress = ''192.168.1.70'', d_port = 8080, d_httpProtocol = ''HTTP/2''\<rparr>,
      \<lparr>d_type = ''PCF'', d_ipAddress = ''192.168.1.80'', d_port = 8080, d_httpProtocol = ''HTTP/2''\<rparr>,
      \<lparr>d_type = ''NSSF'', d_ipAddress = ''192.168.1.90'', d_port = 8080, d_httpProtocol = ''HTTP/2''\<rparr>,
      \<lparr>d_type = ''MySQL'', d_ipAddress = ''192.168.1.100'', d_port = 3306, d_httpProtocol = ''HTTP/2''\<rparr>,
      \<lparr>d_type = ''gNB'', d_ipAddress = ''192.168.1.21'', d_port = 8089, d_httpProtocol = ''HTTP/2''\<rparr>,
      \<lparr>d_type = ''UE'', d_ipAddress = ''192.168.1.22'', d_port = 8090, d_httpProtocol = ''HTTP/2''\<rparr>]"

text \<open>
  The object literals that map a type to its service name (in the compose commands) and a
  service name to its type (in \<open>up\<close>/\<open>down\<close> of one service, and in \<open>start\<close>/\<open>stop\<close>). The
  command interpreter only passes names of the form \<^verbatim>\<open>oai-...\<close> or \<^verbatim>\<open>mysql\<close> to the first of
  the two reverse maps, so the properties an object literal inherits are never looked up.
\<close>

definition serviceNameMap :: "(string \<times> string) list" where
  "serviceNameMap =
     [(''AMF'', ''oai-amf''), (''SMF'', ''oai-smf''), (''UPF'', ''oai-upf''), (''AUSF'', ''oai-ausf''),
      (''UDM'', ''oai-udm''), (''UDR'', ''oai-udr''), (''NRF'', ''oai-nrf''), (''PCF'', ''oai-pcf''),
      (''NSSF'', ''oai-nssf''), (''MySQL'', ''mysql''), (''ext-dn'', ''oai-ext-dn'')]"

definition serviceNameOf :: "string \<Rightarrow> string" where
  "serviceNameOf t = (case map_of serviceNameMap t of Some n \<Rightarrow> n | None \<Rightarrow> toLowerCase t)"

definition serviceToNFTypeMap :: "(string \<times> string) list" where
  "serviceToNFTypeMap =
     [(''oai-nrf'', ''NRF''), (''oai-amf'', ''AMF''), (''oai-smf'', ''SMF''), (''oai-upf'', ''UPF''),
      (''oai-ausf'', ''AUSF''), (''oai-udm'', ''UDM''), (''oai-udr'', ''UDR''), (''oai-pcf'', ''PCF''),
      (''oai-nssf'', ''NSSF''), (''mysql'', ''MySQL''), (''oai-ext-dn'', ''ext-dn''),
      (''oai-gnb'', ''gNB''), (''oai-ue'', ''UE'')]"

definition startStopServiceMap :: "(string \<times> string) list" where
  "startStopServiceMap =
     [(''oai-amf'', ''AMF''), (''oai-smf'', ''SMF''), (''oai-upf'', ''UPF''), (''oai-ausf'', ''AUSF''),
      (''oai-udm'', ''UDM''), (''oai-udr'', ''UDR''), (''oai-nrf'', ''NRF''), (''oai-pcf'', ''PCF''),
      (''oai-nssf'', ''NSSF''), (''mysql'', ''MySQL''), (''ext-dn'', ''ext-dn''),
      (''oai-gnb'', ''gNB''), (''oai-ue'', ''UE'')]"

definition startedLine :: "env \<Rightarrow> string \<Rightarrow> real \<Rightarrow> line" where
  "startedLine e serviceName delay =
     ('' Container '' @ padEnd 16 serviceName @ '' Started'' @ replicate 20 CHR '' ''
        @ e_toFixed1 e delay @ ''s'', ''success'')"

definition networkCreatedLine :: line where
  "networkCreatedLine = ('' Network oaiworkshop Created'' @ replicate 20 CHR '' '' @ ''0.2s'', ''success'')"

subsection \<open>filterTopology\<close>

definition serviceBusInterfaces :: "string list" where
  "serviceBusInterfaces =
     [''Nnrf_NFManagement'', ''Nnrf_NFDiscovery'', ''Nnrf'', ''Namf'', ''Nsmf'', ''Nausf'',
      ''Nudm'', ''Npcf'', ''Nnssf'', ''Nudr'']"

definition filterTopology :: "topology \<Rightarrow> topology" where
  "filterTopology topology =
     (let filteredNfs = filter (\<lambda>n. nf_type n \<noteq> ''gNB'' \<and> nf_type n \<noteq> ''UE'') (nfs topology);
          serviceBusNFIds = set (concat (map bus_connections (buses topology)))
                              \<union> set (map bc_nfId (busConnections topology));
          excludedNFIds = set (map nf_id (filter (\<lambda>n. nf_type n = ''gNB'' \<or> nf_type n = ''UE'')
                                            (nfs topology)));
          keep = (\<lambda>conn.
            if sourceId conn \<in> excludedNFIds \<or> targetId conn \<in> excludedNFIds then False
            else if (sourceId conn \<in> serviceBusNFIds \<and> targetId conn \<in> serviceBusNFIds)
                    \<and> list_ex (\<lambda>iface. includesStr (interfaceName conn) iface) serviceBusInterfaces
            then False
            else True)
      in \<lparr>nfs = filteredNfs,
          connections = filter keep (connections topology),
          buses = map (\<lambda>b. b\<lparr>bus_connections := filter (\<lambda>i. i \<notin> excludedNFIds) (bus_connections b)\<rparr>)
                    (buses topology),
          busConnections = filter (\<lambda>bc. bc_nfId bc \<notin> excludedNFIds) (busConnections topology)\<rparr>)"

subsection \<open>Bus links\<close>

definition removeAllBusesAndBusConnections :: "topology \<Rightarrow> topology" where
  "removeAllBusesAndBusConnections s =
     (let s1 = fold (\<lambda>c t. removeBusConnection (bc_id c) t) (getAllBusConnections s) s
      in fold (\<lambda>b t. removeBus (bus_id b) t) (getAllBuses s1) s1)"

fun ensureLoop :: "env \<Rightarrow> nf \<Rightarrow> topology \<Rightarrow> busConnection list \<Rightarrow> world \<Rightarrow> world" where
  "ensureLoop e n filteredTopology [] w = w"
| "ensureLoop e n filteredTopology (busConn # rest) w =
     (case find (\<lambda>b. bus_id b = bc_busId busConn) (buses filteredTopology) of
        None \<Rightarrow> ensureLoop e n filteredTopology rest w
      | Some b \<Rightarrow>
          (let w1 = (if getBusById (bus_id b) (store w) = None
                     then w\<lparr>store := addBus b (store w)\<rparr> else w);
               exists = list_ex (\<lambda>c. bc_nfId c = nf_id n \<and> bc_busId c = bc_busId busConn)
                          (getAllBusConnections (store w1));
               w2 = (if exists then w1
                     else (let (newId, w') =
                                 (if bc_id busConn \<noteq> '''' then (bc_id busConn, w1)
                                  else (let (r, w'') = nextRandom e w1
                                        in (''bus-conn-'' @ showInt (e_now e) @ ''-''
                                              @ randomSuffix e 9 r, w'')))
                           in w'\<lparr>store := addBusConnection
                                \<lparr>bc_id = newId, bc_nfId = nf_id n, bc_busId = bc_busId busConn,
                                 bc_type = orElse (bc_type busConn) ''bus-connection'',
                                 bc_interfaceName = bc_interfaceName busConn,
                                 bc_protocol = orElse (bc_protocol busConn) ''HTTP/2'',
                                 bc_status = orElse (bc_status busConn) ''connected'',
                                 bc_createdAt = orElseInt (bc_createdAt busConn) (e_now e)\<rparr>
                                (store w')\<rparr>))
           in ensureLoop e n filteredTopology rest w2))"

definition ensureNFConnectedToBus :: "env \<Rightarrow> nf \<Rightarrow> topology \<Rightarrow> world \<Rightarrow> world" where
  "ensureNFConnectedToBus e n filteredTopology w =
     (if nf_id n = '''' then w
      else
        (let connsForThisNF =
               filter (\<lambda>bc. bc_nfId bc = nf_id n
                         \<or> (case find (\<lambda>t. nf_id t = bc_nfId bc) (nfs filteredTopology) of
                               None \<Rightarrow> False
                             | Some t \<Rightarrow> nf_type t = nf_type n))
                 (busConnections filteredTopology)
         in ensureLoop e n filteredTopology connsForThisNF w))"

subsection \<open>UPF peer wiring\<close>

text \<open>The two local closures of \<open>autoConnectUPFToSMFAndExtDn\<close>, then the function.\<close>

definition addConnection :: "env \<Rightarrow> string \<Rightarrow> string \<Rightarrow> string \<Rightarrow> world \<Rightarrow> world" where
  "addConnection e src tgt iface w =
     (let exists = list_ex (\<lambda>c. (sourceId c = src \<and> targetId c = tgt)
                               \<or> (sourceId c = tgt \<and> targetId c = src))
                     (getAllConnections (store w))
      in if exists then w
         else (let (r, w') = nextRandom e w
               in w'\<lparr>store := store_addConnection
                     \<lparr>conn_id = ''conn-'' @ showInt (e_now e) @ ''-'' @ randomSuffix e 5 r,
                      sourceId = src, targetId = tgt, interfaceName = iface,
                      protocol = ''HTTP/2'', conn_status = ''connected'',
                      conn_createdAt = e_now e, isManual = False\<rparr>
                     (store w')\<rparr>))"

definition createNFFromTopology :: "env \<Rightarrow> topology option \<Rightarrow> string \<Rightarrow> nf_defaults option
    \<Rightarrow> world \<Rightarrow> nf \<times> world" where
  "createNFFromTopology e topology t defaultConfig w =
     (let topoNF = (case topology of None \<Rightarrow> None | Some tp \<Rightarrow> find (\<lambda>n. nf_type n = t) (nfs tp));
          cfg = (case defaultConfig of
                   Some c \<Rightarrow> Some c
                 | None \<Rightarrow> find (\<lambda>c. d_type c = t) getDefaultNFConfigurations);
          topoId = (case topoNF of None \<Rightarrow> '''' | Some n \<Rightarrow> nf_id n);
          topoName = (case topoNF of None \<Rightarrow> '''' | Some n \<Rightarrow> nf_name n);
          (newId, w1) = (if topoId \<noteq> '''' then (topoId, w)
                         else (let (r, w') = nextRandom e w
                               in (''nf-'' @ t @ ''-'' @ showInt (e_now e) @ ''-''
                                     @ randomSuffix e 9 r, w')));
          n = \<lparr>nf_id = newId, nf_type = t, nf_name = orElse topoName (t @ ''-1''),
               config = \<lparr>ipAddress = orElse (case cfg of None \<Rightarrow> '''' | Some c \<Rightarrow> d_ipAddress c)
                                        ''192.168.1.12'',
                         port = (if t = ''ext-dn'' then 80
                                 else orElseInt (case cfg of None \<Rightarrow> 0 | Some c \<Rightarrow> d_port c) 8080),
                         httpProtocol = ''HTTP/2''\<rparr>,
               status = ''stable'', statusTimestamp = e_now e, createdAt = Some (e_now e)\<rparr>
      in (n, w1\<lparr>store := addNF n (store w1)\<rparr>))"

definition autoConnectUPFToSMFAndExtDn :: "env \<Rightarrow> nf \<Rightarrow> world \<Rightarrow> world" where
  "autoConnectUPFToSMFAndExtDn e upf w =
     (if nf_type upf \<noteq> ''UPF'' then w
      else
        (let topology = map_option filterTopology (e_fetch e);
             defs = getDefaultNFConfigurations;
             allNFs = getAllNFs (store w);
             (smf, w1) = (case find (\<lambda>n. nf_type n = ''SMF'') allNFs of
                            Some n \<Rightarrow> (n, w)
                          | None \<Rightarrow> createNFFromTopology e topology ''SMF''
                                      (find (\<lambda>c. d_type c = ''SMF'') defs) w);
             (extDn, w2) = (case find (\<lambda>n. nf_type n = ''ext-dn'') allNFs of
                              Some n \<Rightarrow> (n, w1)
                            | None \<Rightarrow> createNFFromTopology e topology ''ext-dn''
                                        (Some \<lparr>d_type = ''ext-dn'', d_ipAddress = ''192.168.1.15'',
                                               d_port = 80, d_httpProtocol = ''HTTP/2''\<rparr>) w1);
             w3 = addConnection e (nf_id upf) (nf_id smf) ''N4'' w2
         in addConnection e (nf_id extDn) (nf_id upf) ''N6'' w3))"

subsection \<open>Stabilization timers, stop and start\<close>

text \<open>
  The callback of a stabilization timer. It looks the NF up by the captured id and does
  nothing when the store has none; otherwise it writes \<open>stable\<close> and, for a UPF, starts the
  peer wiring. (The wiring is asynchronous in the source; it is run here as part of the
  callback.)
\<close>

definition stabilize :: "env \<Rightarrow> timer \<Rightarrow> world \<Rightarrow> world" where
  "stabilize e t w =
     (case t of
        ComposeTimer i created \<Rightarrow>
          (case getNFById i (store w) of
             None \<Rightarrow> w
           | Some updatedNF \<Rightarrow>
               (let u = updatedNF\<lparr>status := ''stable'', statusTimestamp := e_now e,
                          createdAt := (if \<not> truthyTime (createdAt updatedNF) \<and> truthyTime created
                                        then created else createdAt updatedNF)\<rparr>;
                    w1 = w\<lparr>store := updateNF (nf_id u) u (store w)\<rparr>
                in if nf_type u = ''UPF'' then autoConnectUPFToSMFAndExtDn e u w1 else w1))
      | StartTimer i \<Rightarrow>
          (case getNFById i (store w) of
             None \<Rightarrow> w
           | Some updatedNF \<Rightarrow>
               (let u = updatedNF\<lparr>status := ''stable'', statusTimestamp := e_now e\<rparr>;
                    w1 = w\<lparr>store := updateNF (nf_id u) u (store w)\<rparr>
                in if nf_type u = ''UPF'' then autoConnectUPFToSMFAndExtDn e u w1 else w1)))"

text \<open>The oldest pending timer fires (all timers have the same delay).\<close>

definition fireTimer :: "env \<Rightarrow> world \<Rightarrow> world" where
  "fireTimer e w = (case timers w of [] \<Rightarrow> w | t # ts \<Rightarrow> stabilize e t (w\<lparr>timers := ts\<rparr>))"

definition dockerStop :: "env \<Rightarrow> string \<Rightarrow> world \<Rightarrow> world \<times> line list" where
  "dockerStop e serviceName w =
     (if serviceName = '''' then (w, [(''Usage: docker stop <service-name>'', ''error'')])
      else
        (case (case map_of startStopServiceMap (toLowerCase serviceName) of
                 None \<Rightarrow> None
               | Some t \<Rightarrow> find (\<lambda>n. nf_type n = t) (getAllNFs (store w))) of
           None \<Rightarrow> (w, [(''Service '' @ [CHR 0x27] @ serviceName @ [CHR 0x27] @ '' not found.'', ''error'')])
         | Some n \<Rightarrow>
             (let n' = n\<lparr>status := ''stopped'', statusTimestamp := e_now e\<rparr>
              in (w\<lparr>store := updateNF (nf_id n') n' (store w)\<rparr>,
                  [(''Stopping '' @ nf_name n @ ''...'', ''info''),
                   (nf_name n @ '' stopped'', ''success'')]))))"

definition dockerStart :: "env \<Rightarrow> string \<Rightarrow> world \<Rightarrow> world \<times> line list" where
  "dockerStart e serviceName w =
     (if serviceName = '''' then (w, [(''Usage: docker start <service-name>'', ''error'')])
      else
        (case (case map_of startStopServiceMap (toLowerCase serviceName) of
                 None \<Rightarrow> None
               | Some t \<Rightarrow> find (\<lambda>n. nf_type n = t) (getAllNFs (store w))) of
           None \<Rightarrow> (w, [(''Service '' @ [CHR 0x27] @ serviceName @ [CHR 0x27] @ '' not found.'', ''error'')])
         | Some n \<Rightarrow>
             (let n' = n\<lparr>createdAt := (if \<not> truthyTime (createdAt n) then Some (e_now e) else createdAt n),
                         status := ''starting'', statusTimestamp := e_now e\<rparr>
              in (w\<lparr>store := updateNF (nf_id n') n' (store w), timers := timers w @ [StartTimer (nf_id n')]\<rparr>,
                  [(''Starting '' @ nf_name n @ ''...'', ''info''),
                   (nf_name n @ '' started (status: starting)'', ''success'')]))))"

subsection \<open>Bringing up all services\<close>

text \<open>
  \<open>createDefaultNFs\<close>, the fallback of \<open>dockerComposeUp\<close> when the fixture cannot be loaded:
  one \<open>createNetworkFunction\<close> per default configuration, skipping a type whose creation
  returns null.
\<close>

fun createDefaultNFsLoop :: "env \<Rightarrow> nf_defaults list \<Rightarrow> topology \<Rightarrow> topology \<times> line list" where
  "createDefaultNFsLoop e [] s = (s, [])"
| "createDefaultNFsLoop e (nfConfig # rest) s =
     (case e_createNetworkFunction e (d_type nfConfig) s of
        None \<Rightarrow>
          (let (s', ls) = createDefaultNFsLoop e rest s
           in (s', (''Creating '' @ d_type nfConfig @ ''...'', ''info'') # ls))
      | Some (n0, s1) \<Rightarrow>
          (let n = n0\<lparr>config := \<lparr>ipAddress = d_ipAddress nfConfig, port = d_port nfConfig,
                                   httpProtocol = orElse (d_httpProtocol nfConfig) ''HTTP/2''\<rparr>,
                       createdAt := Some (e_now e)\<rparr>;
               s2 = updateNF (nf_id n) n s1;
               (s', ls) = createDefaultNFsLoop e rest s2
           in (s', (''Creating '' @ d_type nfConfig @ ''...'', ''info'')
                   # (nf_name n @ '' created ('' @ d_ipAddress nfConfig @ '':''
                        @ showInt (d_port nfConfig) @ '')'', ''success'') # ls)))"

definition createDefaultNFs :: "env \<Rightarrow> topology \<Rightarrow> topology \<times> line list" where
  "createDefaultNFs e s =
     (let defaultNFs = getDefaultNFConfigurations;
          (s', ls) = createDefaultNFsLoop e defaultNFs s
      in (s', ls @ [('''', ''blank''),
                    (''Created '' @ showNat (length defaultNFs) @ '' default Network Functions'',
                     ''success'')]))"

text \<open>The "Container ... Started" lines after a fixture import: one draw per NF.\<close>

fun startedLoop :: "env \<Rightarrow> nf list \<Rightarrow> world \<Rightarrow> line list \<times> world" where
  "startedLoop e [] w = ([], w)"
| "startedLoop e (n # ns) w =
     (let (r, w1) = nextRandom e w;
          (ls, w2) = startedLoop e ns w1
      in (startedLine e (serviceNameOf (nf_type n)) (r * 0.5 + 0.3) # ls, w2))"

text \<open>
  The loop of \<open>dockerComposeUp\<close> over the missing configurations. An NF is built from the
  fixture's entry of the same type when there is one, and by \<open>createNetworkFunction\<close>
  otherwise; each NF created gets a stabilization timer.
\<close>

fun createMissingLoop :: "env \<Rightarrow> topology option \<Rightarrow> nf_defaults list \<Rightarrow> world
    \<Rightarrow> world \<times> line list" where
  "createMissingLoop e topologyData [] w = (w, [])"
| "createMissingLoop e topologyData (cfg # rest) w =
     (let topologyNF = (case topologyData of
                          None \<Rightarrow> None
                        | Some t \<Rightarrow> find (\<lambda>n. nf_type n = d_type cfg) (nfs t));
          created =
            (case topologyNF of
               Some tnf \<Rightarrow>
                 (let (newId, w1) =
                        (if nf_id tnf \<noteq> '''' then (nf_id tnf, w)
                         else (let (r, w') = nextRandom e w
                               in (''nf-'' @ showInt (e_now e) @ ''-'' @ randomSuffix e 9 r, w')));
                      n = \<lparr>nf_id = newId, nf_type = d_type cfg,
                           nf_name = orElse (nf_name tnf) (d_type cfg),
                           config = \<lparr>ipAddress = d_ipAddress cfg, port = d_port cfg,
                                     httpProtocol = orElse (d_httpProtocol cfg) ''HTTP/2''\<rparr>,
                           status = ''starting'', statusTimestamp = e_now e,
                           createdAt = Some (e_now e)\<rparr>
                  in Some (n, w1\<lparr>store := addNF n (store w1)\<rparr>))
             | None \<Rightarrow>
                 (case e_createNetworkFunction e (d_type cfg) (store w) of
                    None \<Rightarrow> None
                  | Some (n0, s1) \<Rightarrow>
                      (let n = n0\<lparr>config := \<lparr>ipAddress = d_ipAddress cfg, port = d_port cfg,
                                               httpProtocol = orElse (d_httpProtocol cfg) ''HTTP/2''\<rparr>,
                                   createdAt := Some (e_now e), status := ''starting'',
                                   statusTimestamp := e_now e\<rparr>
                       in Some (n, w\<lparr>store := updateNF (nf_id n) n s1\<rparr>))))
      in case created of
           None \<Rightarrow>
             (let (w', ls) = createMissingLoop e topologyData rest w
              in (w', (''Error: Failed to create '' @ d_type cfg, ''error'') # ls))
         | Some (n, w2) \<Rightarrow>
             (let w3 = (case topologyData of
                          None \<Rightarrow> w2
                        | Some t \<Rightarrow> ensureNFConnectedToBus e n t w2);
                  (r, w4) = nextRandom e w3;
                  w5 = w4\<lparr>timers := timers w4 @ [ComposeTimer (nf_id n) (createdAt n)]\<rparr>;
                  (w', ls) = createMissingLoop e topologyData rest w5
              in (w', startedLine e (serviceNameOf (nf_type n)) (r * 1.5 + 0.8) # ls)))"

text \<open>
  \<open>dockerComposeUp\<close>. The store and the NF manager are taken to be initialised. The text of
  the fetch error is not modelled.
\<close>

definition dockerComposeUp :: "env \<Rightarrow> world \<Rightarrow> world \<times> line list" where
  "dockerComposeUp e w =
     (let existingNFs = getAllNFs (store w);
          defaultConfigs = getDefaultNFConfigurations;
          existingTypes = set (map nf_type existingNFs);
          missingConfigs = filter (\<lambda>c. d_type c \<notin> existingTypes) defaultConfigs
      in if length existingNFs = 0 then
           (case e_fetch e of
              Some topology \<Rightarrow>
                (let filtered0 = filterTopology topology;
                     importTime = e_now e;
                     filteredTopology =
                       filtered0\<lparr>nfs := map (\<lambda>n. n\<lparr>createdAt := Some importTime\<rparr>) (nfs filtered0)\<rparr>;
                     w1 = w\<lparr>store := importData filteredTopology (store w)\<rparr>;
                     imported = getAllNFs (store w1);
                     w2 = w1\<lparr>oaiWorkshopNetworkExists := True,
                             oaiWorkshopCreatedTime := Some (e_now e)\<rparr>;
                     totalServices = length imported + 1;
                     (ls, w3) = startedLoop e imported w2
                 in (w3,
                     [(''[+] Running '' @ showNat totalServices @ ''/'' @ showNat totalServices, ''info''),
                      networkCreatedLine]
                     @ ls
                     @ [('''', ''blank''),
                        (''Started '' @ showNat (length imported) @ '' Network Function(s)'',
                         ''success'')]))
            | None \<Rightarrow>
                (let (s', ls) = createDefaultNFs e (store w)
                 in (w\<lparr>store := s'\<rparr>,
                     [(''Failed to load topology'', ''error''),
                      (''Falling back to default NF creation...'', ''warning''),
                      ('''', ''blank'')] @ ls)))
         else if length missingConfigs = 0 then
           (w\<lparr>oaiWorkshopNetworkExists := True,
              oaiWorkshopCreatedTime :=
                (if \<not> truthyTime (oaiWorkshopCreatedTime w) then Some (e_now e)
                 else oaiWorkshopCreatedTime w)\<rparr>,
            [(''All Network Functions are already running!'', ''success''),
             ('''', ''blank''),
             (''Running services:'', ''info'')]
            @ map (\<lambda>n. (''  - '' @ padEnd 16 (serviceNameOf (nf_type n)) @ '' ''
                           @ (if status n = ''stable'' then ''(healthy)'' else ''(starting)''),
                         ''success'')) existingNFs)
         else
           (let isFirstNF = (length existingNFs = 0);
                totalToStart = length missingConfigs + (if isFirstNF then 1 else 0);
                w1 = (if isFirstNF
                      then w\<lparr>oaiWorkshopNetworkExists := True,
                              oaiWorkshopCreatedTime := Some (e_now e)\<rparr>
                      else w);
                topologyData = map_option filterTopology (e_fetch e);
                (w2, ls) = createMissingLoop e topologyData missingConfigs w1
            in (w2,
                [(''[+] Running '' @ showNat totalToStart @ ''/'' @ showNat totalToStart, ''info'')]
                @ (if isFirstNF then [networkCreatedLine] else [])
                @ ls
                @ [('''', ''blank'')]
                @ (if length missingConfigs > 0
                   then [(''Started '' @ showNat (length missingConfigs)
                            @ '' new Network Function(s)'', ''success'')]
                   else []))))"

subsection \<open>Bringing up one service\<close>

text \<open>
  How a call of \<open>dockerComposeUpSingleNF\<close> ended: its early returns (unknown service name,
  type already present, creation returned null), the \<open>TypeError\<close> thrown when the manager's
  NF is to be given the default configuration of a type that has none, or the deployment.
\<close>

datatype up_outcome = UnknownService | AlreadyExists | CreateFailed | TypeErrorThrown | Deployed

definition dockerComposeUpSingleNF :: "env \<Rightarrow> string \<Rightarrow> world
    \<Rightarrow> world \<times> line list \<times> up_outcome" where
  "dockerComposeUpSingleNF e serviceName w =
     (case map_of serviceToNFTypeMap (toLowerCase serviceName) of
        None \<Rightarrow>
          (w, [(''Error: Unknown service '' @ [CHR 0x27] @ serviceName @ [CHR 0x27], ''error'')],
           UnknownService)
      | Some nfType \<Rightarrow>
          (let allNFs = getAllNFs (store w)
           in case find (\<lambda>n. nf_type n = nfType) allNFs of
                Some existingNF \<Rightarrow>
                  (w, [(''Error: '' @ nfType @ '' already exists!'', ''error'')], AlreadyExists)
              | None \<Rightarrow>
                  (let isFirstNF = (length allNFs = 0);
                       w0 = (if isFirstNF
                             then w\<lparr>oaiWorkshopNetworkExists := True,
                                     oaiWorkshopCreatedTime := Some (e_now e)\<rparr>
                             else w);
                       ls0 = (if isFirstNF
                              then [(''[+] Running 2/2'', ''info''), networkCreatedLine]
                              else [(''[+] Running 1/1'', ''info'')]);
                       filteredTopology = map_option filterTopology (e_fetch e);
                       topologyNF = (case filteredTopology of
                                       None \<Rightarrow> None
                                     | Some t \<Rightarrow> find (\<lambda>n. nf_type n = nfType) (nfs t));
                       defaultConfig = find (\<lambda>c. d_type c = nfType) getDefaultNFConfigurations;
                       finish = (\<lambda>n wa.
                         (let (r, wb) = nextRandom e wa;
                              wc = wb\<lparr>timers := timers wb @ [ComposeTimer (nf_id n) (createdAt n)]\<rparr>
                          in (wc,
                              ls0 @ [startedLine e serviceName (r * 1.5 + 0.8),
                                     ('''', ''blank''),
                                     (nfType @ '' deployed successfully on network oaiworkshop (''
                                        @ ipAddress (config n) @ '')'', ''success'')],
                              Deployed)))
                   in case topologyNF of
                        Some tnf \<Rightarrow>
                          (let (newId, w1) =
                                 (if nf_id tnf \<noteq> '''' then (nf_id tnf, w0)
                                  else (let (r, w') = nextRandom e w0
                                        in (''nf-'' @ showInt (e_now e) @ ''-''
                                              @ randomSuffix e 9 r, w')));
                               n = \<lparr>nf_id = newId, nf_type = nfType,
                                    nf_name = orElse (nf_name tnf) nfType,
                                    config =
                                      \<lparr>ipAddress = orElse (ipAddress (config tnf))
                                                     (case defaultConfig of
                                                        None \<Rightarrow> ''undefined''
                                                      | Some c \<Rightarrow> d_ipAddress c),
                                       port = orElseInt (port (config tnf))
                                                (case defaultConfig of None \<Rightarrow> 0 | Some c \<Rightarrow> d_port c),
                                       httpProtocol = orElse (httpProtocol (config tnf)) ''HTTP/2''\<rparr>,
                                    status = ''starting'', statusTimestamp = e_now e,
                                    createdAt = Some (e_now e)\<rparr>;
                               w2 = w1\<lparr>store := addNF n (store w1)\<rparr>;
                               w3 = (case filteredTopology of
                                       None \<Rightarrow> w2
                                     | Some t \<Rightarrow>
                                         (let wr = w2\<lparr>store := removeAllBusesAndBusConnections (store w2)\<rparr>
                                          in fold (\<lambda>existingNF wx. ensureNFConnectedToBus e existingNF t wx)
                                               (getAllNFs (store wr)) wr))
                           in finish n w3)
                      | None \<Rightarrow>
                          (case e_createNetworkFunction e nfType (store w0) of
                             None \<Rightarrow>
                               (w0, ls0 @ [(''Error: Failed to create '' @ nfType, ''error'')],
                                CreateFailed)
                           | Some (n0, s1) \<Rightarrow>
                               (case defaultConfig of
                                  None \<Rightarrow> (w0\<lparr>store := s1\<rparr>, ls0, TypeErrorThrown)
                                | Some c \<Rightarrow>
                                    (let n = n0\<lparr>config := \<lparr>ipAddress = d_ipAddress c, port = d_port c,
                                                   httpProtocol = orElse (d_httpProtocol c) ''HTTP/2''\<rparr>,
                                                 createdAt := Some (e_now e), status := ''starting'',
                                                 statusTimestamp := e_now e\<rparr>
                                     in finish n (w0\<lparr>store := updateNF (nf_id n) n s1\<rparr>)))))))"

section \<open>Definitions that follow the specification\<close>

text \<open>
  Following the specification's words (section 4.5): the success probability of one
  reachability test, by its case order.
\<close>

definition spec_successProbability :: "nf list \<Rightarrow> nf \<Rightarrow> string \<Rightarrow> real" where
  "spec_successProbability allNFs sourceNf targetIP =
     (if \<not> (\<exists>n \<in> set allNFs. ipAddress (config n) = targetIP) then 0.10
      else if getNetworkFromIP (ipAddress (config sourceNf)) \<noteq> getNetworkFromIP targetIP then 0.20
      else if status sourceNf \<noteq> ''stable''
              \<or> status (the (find (\<lambda>n. ipAddress (config n) = targetIP) allNFs)) \<noteq> ''stable''
      then 0.30
      else 0.90)"

text \<open>
  Following the specification's words: "each of 4 simulated packets is an independent
  Bernoulli trial at the computed probability". Packet by packet, one draw decides the
  packet, and a received packet draws twice more for its round-trip time.
\<close>

fun spec_packetTrials :: "real \<Rightarrow> (nat \<Rightarrow> real) \<Rightarrow> nat \<Rightarrow> nat list \<Rightarrow> bool list" where
  "spec_packetTrials p rand k [] = []"
| "spec_packetTrials p rand k (i # is) =
     (if rand k < p then True # spec_packetTrials p rand (k + 3) is
      else False # spec_packetTrials p rand (k + 1) is)"

text \<open>The "Received" count of a ping session.\<close>

fun received :: "ping_outcome \<Rightarrow> nat" where
  "received (Completed rs) = length (filter success rs)"
| "received HostNotFound = 0"
| "received TransmitFailed = 0"

text \<open>A connection joins two ids when it runs between them in either direction.\<close>

definition linked :: "connection list \<Rightarrow> string \<Rightarrow> string \<Rightarrow> bool" where
  "linked cs a b =
     list_ex (\<lambda>c. (sourceId c = a \<and> targetId c = b) \<or> (sourceId c = b \<and> targetId c = a)) cs"

text \<open>
  Modelled from the spec: \<open>nfManager.createNetworkFunction\<close>, whose file is not among the
  sources. The specification gives a new NF an opaque unique id, the name "type-counter",
  an address and a port from the allocator and the status \<open>starting\<close>, and adds it to the
  store. The id is made unique by being longer than every id in the store.
\<close>

definition freshId :: "topology \<Rightarrow> string" where
  "freshId s = replicate (Suc (foldr max (map (\<lambda>n. length (nf_id n)) (nfs s)) 0)) CHR ''n''"

definition specCreateNetworkFunction :: "string \<Rightarrow> topology \<Rightarrow> (nf \<times> topology) option" where
  "specCreateNetworkFunction t s =
     (let n = \<lparr>nf_id = freshId s, nf_type = t,
               nf_name = t @ ''-'' @ showNat (Suc (length (filter (\<lambda>x. nf_type x = t) (nfs s)))),
               config = \<lparr>ipAddress = getNextAvailableIP (nfs s) 0 0,
                         port = getNextAvailablePort (nfs s) 0, httpProtocol = ''HTTP/2''\<rparr>,
               status = ''starting'', statusTimestamp = 0, createdAt = None\<rparr>
      in Some (n, addNF n s))"

text \<open>
  What the fallback and the creation of missing types need of \<open>createNetworkFunction\<close>: it
  returns an NF of the requested type under an id that is new to the store, and the store
  with that NF added at the end.
\<close>

definition managerCreates :: "(string \<Rightarrow> topology \<Rightarrow> (nf \<times> topology) option) \<Rightarrow> bool" where
  "managerCreates mgr =
     (\<forall>t s. \<exists>n. mgr t s = Some (n, s\<lparr>nfs := nfs s @ [n]\<rparr>) \<and> nf_type n = t
               \<and> nf_id n \<notin> set (map nf_id (nfs s)))"

section \<open>Sample topologies and environments\<close>

definition mkNF :: "string \<Rightarrow> string \<Rightarrow> string \<Rightarrow> int \<Rightarrow> string \<Rightarrow> nf" where
  "mkNF i t ip p st =
     \<lparr>nf_id = i, nf_type = t, nf_name = t @ ''-1'',
      config = \<lparr>ipAddress = ip, port = p, httpProtocol = ''HTTP/2''\<rparr>,
      status = st, statusTimestamp = 0, createdAt = Some 0\<rparr>"

definition amf1 :: nf where
  "amf1 = mkNF ''nf-amf'' ''AMF'' ''192.168.1.20'' 8080 ''stable''"

definition gnb1 :: nf where
  "gnb1 = mkNF ''nf-gnb'' ''gNB'' ''192.168.1.21'' 8089 ''stable''"





text \<open>Draws whose first value is above every threshold and whose later values are below.\<close>

definition drawsHighThenLow :: "nat \<Rightarrow> real" where
  "drawsHighThenLow n = (if n = 0 then 0.95 else 0.1)"

text \<open>A topology in which every port of the scanned range is taken.\<close>

definition portsExhausted :: "nf list" where
  "portsExhausted = map (\<lambda>p. mkNF (''nf-'' @ showInt p) ''NRF'' ''10.0.0.1'' p ''stable'') portRange"

text \<open>A topology in which every address of the pool is taken.\<close>

definition ipsExhausted :: "nf list" where
  "ipsExhausted = map (\<lambda>ip. mkNF (''nf-'' @ ip) ''NRF'' ip 1 ''stable'') ipPool"

definition emptyTopology :: topology where
  "emptyTopology = \<lparr>nfs = [], connections = [], buses = [], busConnections = []\<rparr>"

definition world0 :: world where
  "world0 = \<lparr>store = emptyTopology, oaiWorkshopNetworkExists = False,
             oaiWorkshopCreatedTime = None, timers = [], draws = 0\<rparr>"

definition worldWith :: "nf list \<Rightarrow> world" where
  "worldWith ns = world0\<lparr>store := emptyTopology\<lparr>nfs := ns\<rparr>\<rparr>"

text \<open>A fixture with one NF of each core type, an ext-dn, a gNB and a UE.\<close>

definition fixtureNFs :: "nf list" where
  "fixtureNFs =
     [mkNF ''nf-nrf'' ''NRF'' ''192.168.1.10'' 8080 ''stable'',
      mkNF ''nf-amf'' ''AMF'' ''192.168.1.20'' 8080 ''stable'',
      mkNF ''nf-smf'' ''SMF'' ''192.168.1.30'' 8080 ''stable'',
      mkNF ''nf-upf'' ''UPF'' ''192.168.1.40'' 8080 ''stable'',
      mkNF ''nf-ausf'' ''AUSF'' ''192.168.1.50'' 8080 ''stable'',
      mkNF ''nf-udm'' ''UDM'' ''192.168.1.60'' 8080 ''stable'',
      mkNF ''nf-udr'' ''UDR'' ''192.168.1.70'' 8080 ''stable'',
      mkNF ''nf-pcf'' ''PCF'' ''192.168.1.80'' 8080 ''stable'',
      mkNF ''nf-nssf'' ''NSSF'' ''192.168.1.90'' 8080 ''stable'',
      mkNF ''nf-mysql'' ''MySQL'' ''192.168.1.100'' 3306 ''stable'',
      mkNF ''nf-extdn'' ''ext-dn'' ''192.168.1.15'' 80 ''stable'',
      mkNF ''nf-gnb'' ''gNB'' ''192.168.1.21'' 8089 ''stable'',
      mkNF ''nf-ue'' ''UE'' ''192.168.1.22'' 8090 ''stable'']"

definition fixture1 :: topology where
  "fixture1 = \<lparr>nfs = fixtureNFs, connections = [], buses = [], busConnections = []\<rparr>"

text \<open>
  An environment: the clock reads 1000, every draw is 0.5, and the fixture fetch gives \<open>f\<close>.
\<close>

definition envWith :: "topology option \<Rightarrow> env" where
  "envWith f =
     \<lparr>e_now = 1000, e_random = (\<lambda>k. 1/2), e_toFixed1 = (\<lambda>r. ''1.0''),
      e_toString36 = (\<lambda>r. ''0.i''), e_fetch = f,
      e_createNetworkFunction = specCreateNetworkFunction\<rparr>"



text \<open>
  The state after \<open>docker compose up -d\<close> on the empty store with \<open>fixture1\<close>: the eleven
  fixture NFs that are not radio-access entities, stamped with the import time.
\<close>

definition worldImported :: world where
  "worldImported =
     \<lparr>store = \<lparr>nfs = map (\<lambda>n. n\<lparr>createdAt := Some 1000\<rparr>) (take 11 fixtureNFs),
               connections = [], buses = [], busConnections = []\<rparr>,
      oaiWorkshopNetworkExists = True, oaiWorkshopCreatedTime = Some 1000,
      timers = [], draws = 11\<rparr>"

section \<open>Reachability simulator: proofs\<close>

lemmas ip_eval = isValidIP_def isDigit_def getNetworkFromIP_def partText_def
lemmas nf_eval = amf1_def gnb1_def mkNF_def

lemma valid21: "isValidIP ''192.168.1.21''"
  by (simp add: ip_eval)

lemma net21: "getNetworkFromIP ''192.168.1.21'' = ''192.168.1''"
  by (simp add: ip_eval)

lemma net20: "getNetworkFromIP ''192.168.1.20'' = ''192.168.1''"
  by (simp add: ip_eval)

lemma valid10: "isValidIP ''10.0.0.1''"
  by (simp add: ip_eval)

lemma net10: "getNetworkFromIP ''10.0.0.1'' = ''10.0.0''"
  by (simp add: ip_eval)

lemma unreachable_first_draw:
  "isTargetReachable [amf1, gnb1] amf1 ''192.168.1.21'' (drawsHighThenLow 0) = False"
  by (simp add: isTargetReachable_def nf_eval net20 net21 drawsHighThenLow_def)

lemma pingLoop_length: "length (fst (snd (pingLoop b t rand k is))) = length is"
  by (induction "is" arbitrary: k) (auto simp: Let_def split_beta)

lemma pingLoop_success: "\<forall>r \<in> set (fst (snd (pingLoop b t rand k is))). success r = b"
  by (induction "is" arbitrary: k) (auto simp: Let_def split_beta)

lemma pingLoop_results:
  "\<exists>ls rs k'. pingLoop b t rand k is = (ls, rs, k') \<and> length rs = length is
     \<and> (\<forall>r \<in> set rs. success r = b)"
  using pingLoop_length[of b t rand k "is"] pingLoop_success[of b t rand k "is"]
  by (cases "pingLoop b t rand k is") auto

lemma all_success_count:
  "\<forall>r \<in> set rs. success r = b \<Longrightarrow> length (filter success rs) = (if b then length rs else 0)"
  by (induction rs) auto


subsection \<open>One draw per ping session\<close>

text \<open>
  Claim C3, as amended. In a per-target command ping that reaches the packet loop (valid
  target address on the source's network) the reachability test is made once, with one
  draw, before the loop: the four packets all share its verdict, so a session receives
  either 4 replies or none, never 1, 2 or 3.
\<close>

theorem ping_one_draw_decides_all:
  assumes "isValidIP target"
    and "getNetworkFromIP (ipAddress (config nf)) = getNetworkFromIP target"
  shows "\<exists>rs. fst (snd (executeWindowsPing allNFs nf target rand k)) = Completed rs
           \<and> length rs = 4
           \<and> (\<forall>r \<in> set rs. success r = isTargetReachable allNFs nf target (rand k))
           \<and> received (Completed rs) = (if isTargetReachable allNFs nf target (rand k) then 4 else 0)"
proof -
  obtain ls rs k' where
    loop: "pingLoop (isTargetReachable allNFs nf target (rand k)) target rand (Suc k) [1, 2, 3, 4]
             = (ls, rs, k')"
    and len: "length rs = length [1::nat, 2, 3, 4]"
    and all: "\<forall>r \<in> set rs. success r = isTargetReachable allNFs nf target (rand k)"
    using pingLoop_results by blast
  have "fst (snd (executeWindowsPing allNFs nf target rand k)) = Completed rs"
    using assms loop by (simp add: executeWindowsPing_def Let_def)
  moreover have "length rs = 4"
    using len by simp
  moreover have "received (Completed rs) = (if isTargetReachable allNFs nf target (rand k) then 4 else 0)"
    using all_success_count[OF all] len by simp
  ultimately show ?thesis
    using all by blast
qed

text \<open>
  Witness for C3: the AMF at 192.168.1.20 pings the gNB at 192.168.1.21, both stable; the
  first draw is 0.95, so the session ends with four timeouts.
\<close>

theorem ping_one_draw_decides_all_witness:
  "isValidIP ''192.168.1.21''
   \<and> getNetworkFromIP (ipAddress (config amf1)) = getNetworkFromIP ''192.168.1.21''
   \<and> isTargetReachable [amf1, gnb1] amf1 ''192.168.1.21'' (drawsHighThenLow 0) = False
   \<and> (\<exists>rs. fst (snd (executeWindowsPing [amf1, gnb1] amf1 ''192.168.1.21'' drawsHighThenLow 0))
            = Completed rs
          \<and> length rs = 4 \<and> received (Completed rs) = 0)"
proof -
  have v: "isValidIP ''192.168.1.21''"
    by (rule valid21)
  have n: "getNetworkFromIP (ipAddress (config amf1)) = getNetworkFromIP ''192.168.1.21''"
    by (simp add: nf_eval net20 net21)
  from ping_one_draw_decides_all[OF v n, of "[amf1, gnb1]" drawsHighThenLow 0]
    unreachable_first_draw v n
  show ?thesis
    by auto
qed

text \<open>
  Counterexample to C3 as stated. Same session, draws 0.95, 0.1, 0.1, ...: with a trial
  per packet at probability 0.9 the first packet is lost and the other three are received;
  the code reports 0 received.
\<close>

theorem independent_trials_counterexample:
  "received (fst (snd (executeWindowsPing [amf1, gnb1] amf1 ''192.168.1.21'' drawsHighThenLow 0))) = 0
   \<and> spec_successProbability [amf1, gnb1] amf1 ''192.168.1.21'' = 0.9
   \<and> length (filter id (spec_packetTrials (spec_successProbability [amf1, gnb1] amf1 ''192.168.1.21'')
        drawsHighThenLow 0 [1, 2, 3, 4])) = 3"
proof -
  have p: "spec_successProbability [amf1, gnb1] amf1 ''192.168.1.21'' = 0.9"
    by (simp add: spec_successProbability_def nf_eval net20 net21)
  have c: "fst (snd (executeWindowsPing [amf1, gnb1] amf1 ''192.168.1.21'' drawsHighThenLow 0))
       = Completed [Timeout 1, Timeout 2, Timeout 3, Timeout 4]"
    using unreachable_first_draw
    by (simp add: executeWindowsPing_def valid21 net21 nf_eval net20 Let_def)
  have c': "received (fst (snd (executeWindowsPing [amf1, gnb1] amf1 ''192.168.1.21''
              drawsHighThenLow 0))) = 0"
    unfolding c by simp
  have s: "length (filter id (spec_packetTrials (spec_successProbability [amf1, gnb1] amf1 ''192.168.1.21'')
        drawsHighThenLow 0 [1, 2, 3, 4])) = 3"
    unfolding p by (simp add: drawsHighThenLow_def)
  show ?thesis
    by (intro conjI) (rule c', rule p, rule s)
qed

subsection \<open>The success probability by cases\<close>

text \<open>
  Claim C6. The reachability test succeeds exactly when its draw is below the probability
  the specification selects: 0.10 if no NF owns the target address, else 0.20 if the two
  network prefixes differ, else 0.30 if either endpoint is not stable, else 0.90.
\<close>

theorem reachability_probability_cases:
  "isTargetReachable allNFs sourceNf targetIP r
     = (r < spec_successProbability allNFs sourceNf targetIP)"
proof (cases "find (\<lambda>n. ipAddress (config n) = targetIP) allNFs")
  case None
  then have "\<not> (\<exists>n \<in> set allNFs. ipAddress (config n) = targetIP)"
    by (simp add: find_None_iff)
  with None show ?thesis
    by (simp add: isTargetReachable_def spec_successProbability_def)
next
  case (Some t)
  then obtain i where "i < length allNFs" and "ipAddress (config (allNFs ! i)) = targetIP"
    by (auto simp: find_Some_iff)
  then have "\<exists>n \<in> set allNFs. ipAddress (config n) = targetIP"
    using nth_mem by blast
  with Some show ?thesis
    by (simp add: isTargetReachable_def spec_successProbability_def)
qed

text \<open>
  Witness for C6: a stable same-network pair has probability 0.9 and a draw of 0.5
  succeeds; an address that no NF owns has probability 0.1 and the same draw fails.
\<close>

theorem reachability_probability_cases_witness:
  "spec_successProbability [amf1, gnb1] amf1 ''192.168.1.21'' = 0.9
   \<and> isTargetReachable [amf1, gnb1] amf1 ''192.168.1.21'' 0.5
   \<and> spec_successProbability [amf1, gnb1] amf1 ''192.168.1.99'' = 0.1
   \<and> \<not> isTargetReachable [amf1, gnb1] amf1 ''192.168.1.99'' 0.5"
proof -
  have p: "spec_successProbability [amf1, gnb1] amf1 ''192.168.1.21'' = 0.9"
    by (simp add: spec_successProbability_def nf_eval net20 net21)
  have q: "spec_successProbability [amf1, gnb1] amf1 ''192.168.1.99'' = 0.1"
    by (simp add: spec_successProbability_def nf_eval)
  show ?thesis
    using reachability_probability_cases[of "[amf1, gnb1]" amf1 "''192.168.1.21''" "1/2"]
      reachability_probability_cases[of "[amf1, gnb1]" amf1 "''192.168.1.99''" "1/2"]
    by (simp add: p q)
qed

subsection \<open>The network prefix of a valid address\<close>

lemma splitOn_parts_free: "p \<in> set (splitOn sep s) \<Longrightarrow> sep \<notin> set p"
  by (induction s arbitrary: p) (auto split: if_splits list.splits)

lemma join_sep_inject:
  "sep \<notin> set a \<Longrightarrow> sep \<notin> set a' \<Longrightarrow> a @ sep # r = a' @ sep # r' \<Longrightarrow> a = a' \<and> r = r'"
proof (induction a arbitrary: a')
  case Nil
  then show ?case
    by (cases a') auto
next
  case (Cons x xs)
  then show ?case
    by (cases a') auto
qed

text \<open>
  For two addresses that pass \<open>isValidIP\<close>, \<open>getNetworkFromIP\<close> agrees exactly when the first
  three dot-separated groups agree.
\<close>

lemma network_prefix_valid:
  assumes x: "isValidIP x" and y: "isValidIP y"
  shows "(getNetworkFromIP x = getNetworkFromIP y)
           = (take 3 (splitOn CHR ''.'' x) = take 3 (splitOn CHR ''.'' y))"
proof -
  obtain a b c d where px: "splitOn CHR ''.'' x = [a, b, c, d]"
    using x by (auto simp: isValidIP_def Let_def length_Suc_conv numeral_eq_Suc)
  obtain a' b' c' d' where py: "splitOn CHR ''.'' y = [a', b', c', d']"
    using y by (auto simp: isValidIP_def Let_def length_Suc_conv numeral_eq_Suc)
  have fx: "CHR ''.'' \<notin> set a" "CHR ''.'' \<notin> set b"
    using splitOn_parts_free[of _ "CHR ''.''" x] px by auto
  have fy: "CHR ''.'' \<notin> set a'" "CHR ''.'' \<notin> set b'"
    using splitOn_parts_free[of _ "CHR ''.''" y] py by auto
  have nx: "getNetworkFromIP x = a @ CHR ''.'' # (b @ CHR ''.'' # c)"
    by (simp add: getNetworkFromIP_def partText_def px)
  have ny: "getNetworkFromIP y = a' @ CHR ''.'' # (b' @ CHR ''.'' # c')"
    by (simp add: getNetworkFromIP_def partText_def py)
  have "(getNetworkFromIP x = getNetworkFromIP y) = (a = a' \<and> b = b' \<and> c = c')"
    unfolding nx ny
    using join_sep_inject[OF fx(1) fy(1)] join_sep_inject[OF fx(2) fy(2)] by blast
  then show ?thesis
    by (simp add: px py)
qed

subsection \<open>Cross-subnet ping\<close>

text \<open>
  Claim C5. For a syntactically valid target address whose network prefix differs from the
  source NF's, the command ping returns at once: it writes the transmit-failed report ending
  in "Sent = 4, Received = 0, Lost = 4 (100% loss)", simulates no packet and takes no draw
  (the index of the next draw is unchanged), whatever the topology and the draws are. The
  prefix is the one \<open>getNetworkFromIP\<close> computes; between two valid addresses it differs
  exactly when the first three groups differ (\<open>network_prefix_valid\<close>).
\<close>

theorem cross_subnet_ping_transmit_failed:
  assumes "isValidIP target"
    and "getNetworkFromIP (ipAddress (config nf)) \<noteq> getNetworkFromIP target"
  shows "executeWindowsPing allNFs nf target rand k =
     ([(''Pinging '' @ target @ '' with 32 bytes of data:'', ''info''),
       ('''', ''blank''),
       (''PING: transmit failed. General failure.'', ''error''),
       ('''', ''blank''),
       (''Network Error: Cannot reach '' @ target, ''error''),
       (''Source subnet: '' @ getNetworkFromIP (ipAddress (config nf)) @ ''.0/24'', ''error''),
       (''Target subnet: '' @ getNetworkFromIP target @ ''.0/24'', ''error''),
       (''Reason: Cross-subnet communication not allowed'', ''error''),
       ('''', ''blank''),
       (''Ping statistics for '' @ target @ '':'', ''info''),
       (''    Packets: Sent = 4, Received = 0, Lost = 4 (100% loss),'', ''info'')],
      TransmitFailed, k)"
  using assms by (simp add: executeWindowsPing_def Let_def)

text \<open>Witness for C5: the AMF at 192.168.1.20 pings 10.0.0.1.\<close>

theorem cross_subnet_ping_transmit_failed_witness:
  "isValidIP ''10.0.0.1''
   \<and> getNetworkFromIP (ipAddress (config amf1)) \<noteq> getNetworkFromIP ''10.0.0.1''
   \<and> fst (snd (executeWindowsPing [amf1, gnb1] amf1 ''10.0.0.1'' drawsHighThenLow 0)) = TransmitFailed
   \<and> snd (snd (executeWindowsPing [amf1, gnb1] amf1 ''10.0.0.1'' drawsHighThenLow 0)) = 0
   \<and> last (fst (executeWindowsPing [amf1, gnb1] amf1 ''10.0.0.1'' drawsHighThenLow 0))
       = (''    Packets: Sent = 4, Received = 0, Lost = 4 (100% loss),'', ''info'')"
proof -
  have v: "isValidIP ''10.0.0.1''"
    by (rule valid10)
  have n: "getNetworkFromIP (ipAddress (config amf1)) \<noteq> getNetworkFromIP ''10.0.0.1''"
    by (simp add: nf_eval net20 net10)
  show ?thesis
    using cross_subnet_ping_transmit_failed[OF v n, of "[amf1, gnb1]" drawsHighThenLow 0] v n
    by simp
qed

subsection \<open>The subnet scan\<close>








section \<open>Allocator: proofs\<close>

lemma set_portRange: "set portRange = {8080..9999}"
  by (simp add: portRange_def del: upto_rec_numeral)

lemma set_hostRange: "set hostRange = {10..<255}"
  by (simp add: hostRange_def del: upt_rec_numeral)

lemma find_first_unused:
  assumes "\<exists>x \<in> set xs. P x"
  shows "\<exists>y. find P xs = Some y \<and> y \<in> set xs \<and> P y"
  using assms by (induction xs) auto

lemma find_upto_least:
  assumes f: "find P [a..b] = Some p" and aq: "a \<le> q" and qp: "q < p"
  shows "\<not> P q"
proof -
  from f obtain i where i: "i < length [a..b]" "[a..b] ! i = p" "\<forall>j<i. \<not> P ([a..b] ! j)"
    by (auto simp: find_Some_iff)
  then have p: "p = a + int i"
    by simp
  have lt: "nat (q - a) < i"
    using qp aq p by linarith
  have "[a..b] ! nat (q - a) = q"
    using aq qp i p by simp
  then show "\<not> P q"
    using i(3) lt by metis
qed

text \<open>
  Claim C4, as amended. While a value of the pool is unused, \<open>getNextAvailableIP\<close> returns a
  pool address that is not in use and \<open>getNextAvailablePort\<close> returns the least port of
  8080..9999 that is not in use. When every port of the range is in use the result is the
  fallback \<open>floor (r * 1000) + 8000\<close>, and when every pool address is in use the result is
  the fallback address \<open>192.168.(floor (r1 * 254) + 1).(floor (r2 * 244) + 10)\<close>; both are
  computed without consulting the in-use set.
\<close>

theorem allocator_avoids_used_unless_exhausted:
  "((\<exists>ip \<in> set ipPool. ip \<notin> usedIPs allNFs)
      \<longrightarrow> getNextAvailableIP allNFs r1 r2 \<in> set ipPool
          \<and> getNextAvailableIP allNFs r1 r2 \<notin> usedIPs allNFs)
   \<and> ((\<exists>p \<in> {8080..9999}. p \<notin> usedPorts allNFs)
      \<longrightarrow> getNextAvailablePort allNFs r \<in> {8080..9999}
          \<and> getNextAvailablePort allNFs r \<notin> usedPorts allNFs
          \<and> (\<forall>q. 8080 \<le> q \<and> q < getNextAvailablePort allNFs r \<longrightarrow> q \<in> usedPorts allNFs))
   \<and> (\<not> (\<exists>p \<in> {8080..9999}. p \<notin> usedPorts allNFs)
      \<longrightarrow> getNextAvailablePort allNFs r = \<lfloor>r * 1000\<rfloor> + 8000)
   \<and> (\<not> (\<exists>ip \<in> set ipPool. ip \<notin> usedIPs allNFs)
      \<longrightarrow> getNextAvailableIP allNFs r1 r2
            = ''192.168.'' @ showInt (\<lfloor>r1 * 254\<rfloor> + 1) @ ''.'' @ showInt (\<lfloor>r2 * 244\<rfloor> + 10))"
proof (intro conjI impI)
  assume "\<exists>ip \<in> set ipPool. ip \<notin> usedIPs allNFs"
  then obtain y where "find (\<lambda>ip. ip \<notin> usedIPs allNFs) ipPool = Some y"
      "y \<in> set ipPool" "y \<notin> usedIPs allNFs"
    using find_first_unused[of ipPool "\<lambda>ip. ip \<notin> usedIPs allNFs"] by blast
  then show "getNextAvailableIP allNFs r1 r2 \<in> set ipPool"
      "getNextAvailableIP allNFs r1 r2 \<notin> usedIPs allNFs"
    by (simp_all add: getNextAvailableIP_def)
next
  assume "\<exists>p \<in> {8080..9999}. p \<notin> usedPorts allNFs"
  then have "\<exists>p \<in> set portRange. p \<notin> usedPorts allNFs"
    by (simp only: set_portRange)
  then obtain y where y: "find (\<lambda>p. p \<notin> usedPorts allNFs) portRange = Some y"
    "y \<in> set portRange" "y \<notin> usedPorts allNFs"
    using find_first_unused[of portRange "\<lambda>p. p \<notin> usedPorts allNFs"] by blast
  then have g: "getNextAvailablePort allNFs r = y"
    by (simp add: getNextAvailablePort_def)
  show "getNextAvailablePort allNFs r \<in> {8080..9999}"
    using y(2) g by (simp only: set_portRange)
  show "getNextAvailablePort allNFs r \<notin> usedPorts allNFs"
    using y(3) g by simp
  have "\<And>q. 8080 \<le> q \<Longrightarrow> q < y \<Longrightarrow> q \<in> usedPorts allNFs"
    using find_upto_least[of "\<lambda>p. p \<notin> usedPorts allNFs" 8080 9999 y] y(1)
    unfolding portRange_def by blast
  then show "\<forall>q. 8080 \<le> q \<and> q < getNextAvailablePort allNFs r \<longrightarrow> q \<in> usedPorts allNFs"
    using g by blast
next
  assume "\<not> (\<exists>p \<in> {8080..9999}. p \<notin> usedPorts allNFs)"
  then have "\<not> (\<exists>p. p \<in> set portRange \<and> p \<notin> usedPorts allNFs)"
    unfolding set_portRange by blast
  then have "find (\<lambda>p. p \<notin> usedPorts allNFs) portRange = None"
    unfolding find_None_iff by blast
  then show "getNextAvailablePort allNFs r = \<lfloor>r * 1000\<rfloor> + 8000"
    by (simp add: getNextAvailablePort_def)
next
  assume "\<not> (\<exists>ip \<in> set ipPool. ip \<notin> usedIPs allNFs)"
  then have "\<not> (\<exists>ip. ip \<in> set ipPool \<and> ip \<notin> usedIPs allNFs)"
    by blast
  then have "find (\<lambda>ip. ip \<notin> usedIPs allNFs) ipPool = None"
    unfolding find_None_iff by blast
  then show "getNextAvailableIP allNFs r1 r2
      = ''192.168.'' @ showInt (\<lfloor>r1 * 254\<rfloor> + 1) @ ''.'' @ showInt (\<lfloor>r2 * 244\<rfloor> + 10)"
    by (simp add: getNextAvailableIP_def Let_def)
qed

lemma ipPool_member:
  assumes s: "subnet \<in> set subnets" and h: "10 \<le> host" "host < 255"
  shows "subnet @ ''.'' @ showNat host \<in> set ipPool"
proof -
  have "host \<in> set hostRange"
    using h by (simp add: set_hostRange)
  then have img: "subnet @ ''.'' @ showNat host
      \<in> (\<lambda>host. subnet @ ''.'' @ showNat host) ` set hostRange"
    by (rule imageI)
  have "set ipPool = (\<Union>subnet \<in> set subnets. (\<lambda>host. subnet @ ''.'' @ showNat host) ` set hostRange)"
    by (simp add: ipPool_def)
  then show ?thesis
    using img s by (simp only: UN_iff) (rule bexI)
qed

lemma ip_10_in_pool: "''192.168.1.10'' \<in> set ipPool"
proof -
  have "''192.168.1'' \<in> set subnets"
    by (simp add: subnets_def)
  moreover have "showNat 10 = ''10''"
    by (simp add: showNat.simps digitChar_def)
  ultimately show ?thesis
    using ipPool_member[of "''192.168.1''" 10] by simp
qed

text \<open>
  Witness for C4: with 192.168.1.20 and .21 and the ports 8080 and 8089 in use, the next
  port is 8081 and the next address is not in use.
\<close>

theorem allocator_avoids_used_unless_exhausted_witness:
  "''192.168.1.10'' \<in> set ipPool \<and> ''192.168.1.10'' \<notin> usedIPs [amf1, gnb1]
   \<and> getNextAvailableIP [amf1, gnb1] 0 0 \<notin> usedIPs [amf1, gnb1]
   \<and> 8081 \<notin> usedPorts [amf1, gnb1]
   \<and> getNextAvailablePort [amf1, gnb1] 0 = 8081"
proof -
  note inst = allocator_avoids_used_unless_exhausted[of "[amf1, gnb1]" 0 0 0]
  have a: "''192.168.1.10'' \<notin> usedIPs [amf1, gnb1]"
    by (simp add: usedIPs_def nf_eval)
  have b: "8081 \<notin> usedPorts [amf1, gnb1]" and b': "8080 \<in> usedPorts [amf1, gnb1]"
    by (simp_all add: usedPorts_def nf_eval)
  have "(8081::int) \<in> {8080..9999}"
    by simp
  then have c: "\<exists>p \<in> {8080..9999}. p \<notin> usedPorts [amf1, gnb1]"
    using b by blast
  have d: "\<exists>ip \<in> set ipPool. ip \<notin> usedIPs [amf1, gnb1]"
    using a ip_10_in_pool by blast
  from inst c have port:
    "getNextAvailablePort [amf1, gnb1] 0 \<in> {8080..9999}"
    "getNextAvailablePort [amf1, gnb1] 0 \<notin> usedPorts [amf1, gnb1]"
    "\<forall>q. 8080 \<le> q \<and> q < getNextAvailablePort [amf1, gnb1] 0 \<longrightarrow> q \<in> usedPorts [amf1, gnb1]"
    by blast+
  have e: "getNextAvailablePort [amf1, gnb1] 0 \<noteq> 8080"
    using port(2) b' by metis
  have f: "\<not> 8081 < getNextAvailablePort [amf1, gnb1] 0"
    using port(3) b by force
  have g: "8080 \<le> getNextAvailablePort [amf1, gnb1] 0"
    using port(1) by simp
  have h: "getNextAvailablePort [amf1, gnb1] 0 = 8081"
    using e f g by linarith
  from inst d have "getNextAvailableIP [amf1, gnb1] 0 0 \<notin> usedIPs [amf1, gnb1]"
    by blast
  then show ?thesis
    using a b h ip_10_in_pool by blast
qed

lemma usedPorts_exhausted: "usedPorts portsExhausted = {8080..9999}"
proof -
  have "usedPorts portsExhausted = set portRange"
    by (simp add: usedPorts_def portsExhausted_def mkNF_def comp_def)
  then show ?thesis
    by (simp only: set_portRange)
qed

lemma usedIPs_exhausted: "usedIPs ipsExhausted = set ipPool"
  by (simp add: usedIPs_def ipsExhausted_def mkNF_def comp_def)

text \<open>
  Counterexample to C4 as stated: with every port from 8080 to 9999 in use and the draw
  0.5, the allocator returns 8500, which is in use; with every pool address in use and the
  draws 0 and 0 it returns 192.168.1.10, which is in use.
\<close>

theorem allocator_exhausted_counterexample:
  "getNextAvailablePort portsExhausted (1/2) = 8500
   \<and> 8500 \<in> usedPorts portsExhausted
   \<and> getNextAvailableIP ipsExhausted 0 0 = ''192.168.1.10''
   \<and> ''192.168.1.10'' \<in> usedIPs ipsExhausted"
proof -
  have "\<not> (\<exists>p. p \<in> set portRange \<and> p \<notin> usedPorts portsExhausted)"
    unfolding set_portRange usedPorts_exhausted by blast
  then have "find (\<lambda>p. p \<notin> usedPorts portsExhausted) portRange = None"
    unfolding find_None_iff by blast
  then have p: "getNextAvailablePort portsExhausted (1/2) = 8500"
    by (simp add: getNextAvailablePort_def)
  have q: "(8500::int) \<in> usedPorts portsExhausted"
    unfolding usedPorts_exhausted by simp
  have "\<not> (\<exists>ip. ip \<in> set ipPool \<and> ip \<notin> usedIPs ipsExhausted)"
    unfolding usedIPs_exhausted by blast
  then have "find (\<lambda>ip. ip \<notin> usedIPs ipsExhausted) ipPool = None"
    unfolding find_None_iff by blast
  then have i: "getNextAvailableIP ipsExhausted 0 0 = ''192.168.1.10''"
    by (simp add: getNextAvailableIP_def Let_def showInt_def showNat.simps digitChar_def)
  have j: "''192.168.1.10'' \<in> usedIPs ipsExhausted"
    unfolding usedIPs_exhausted by (rule ip_10_in_pool)
  show ?thesis
    using p q i j by blast
qed

section \<open>Docker terminal: proofs\<close>

lemmas sample_eval = envWith_def world0_def worldWith_def emptyTopology_def mkNF_def
lemmas store_eval = getAllNFs_def getNFById_def addNF_def updateNF_def removeNF_def
  getAllConnections_def store_addConnection_def getAllBuses_def getBusById_def addBus_def
  removeBus_def getAllBusConnections_def addBusConnection_def removeBusConnection_def importData_def
lemmas text_eval = toLowerCase_def lowerChar_def orElse_def orElseInt_def truthyTime_def
  padEnd_def showInt_def showNat.simps digitChar_def

lemma find_Some_holds: "find P xs = Some x \<Longrightarrow> P x \<and> x \<in> set xs"
  by (induction xs) (auto split: if_splits)

lemma find_append_left: "find P xs = Some x \<Longrightarrow> find P (xs @ ys) = Some x"
  by (induction xs) auto

lemma find_append_right: "find P xs = None \<Longrightarrow> find P (xs @ ys) = find P ys"
  by (induction xs) (auto split: if_splits)

lemma find_replaceFirst:
  "find P xs = Some x \<Longrightarrow> P y \<Longrightarrow> find P (replaceFirst P y xs) = Some y"
  by (induction xs) (auto split: if_splits)

lemma find_filter_none: "find P (filter (\<lambda>x. \<not> P x) xs) = None"
  by (induction xs) auto

subsection \<open>Bringing up one service: the two refusals\<close>



subsection \<open>UPF peer wiring\<close>

lemma addConnection_nfs: "nfs (store (addConnection e a b i w)) = nfs (store w)"
  by (simp add: addConnection_def Let_def split_beta nextRandom_def store_eval)





lemma linked_sym: "linked cs a b = linked cs b a"
  by (auto simp: linked_def list_ex_iff)


lemma createNF_nfs:
  "nfs (store (snd (createNFFromTopology e tp t d w)))
     = nfs (store w) @ [fst (createNFFromTopology e tp t d w)]"
  by (simp add: createNFFromTopology_def Let_def split_beta nextRandom_def store_eval)

lemma createNF_type: "nf_type (fst (createNFFromTopology e tp t d w)) = t"
  by (simp add: createNFFromTopology_def Let_def split_beta)

lemma createNF_connections:
  "connections (store (snd (createNFFromTopology e tp t d w))) = connections (store w)"
  by (simp add: createNFFromTopology_def Let_def split_beta nextRandom_def store_eval)

text \<open>
  The shape of one run of the wiring: the two peers it settles on are the first SMF and the
  first ext-dn of the store it leaves, NFs are only added at the end, and the two
  \<open>addConnection\<close> calls follow.
\<close>

lemma autoConnect_decomp:
  assumes upf: "nf_type upf = ''UPF''"
  shows "\<exists>smf extDn w2.
           autoConnectUPFToSMFAndExtDn e upf w
             = addConnection e (nf_id extDn) (nf_id upf) ''N6''
                 (addConnection e (nf_id upf) (nf_id smf) ''N4'' w2)
         \<and> find (\<lambda>n. nf_type n = ''SMF'') (nfs (store w2)) = Some smf
         \<and> find (\<lambda>n. nf_type n = ''ext-dn'') (nfs (store w2)) = Some extDn
         \<and> connections (store w2) = connections (store w)
         \<and> (\<exists>ex. nfs (store w2) = nfs (store w) @ ex)"
proof -
  let ?tp = "map_option filterTopology (e_fetch e)"
  let ?dS = "find (\<lambda>c. d_type c = ''SMF'') getDefaultNFConfigurations"
  let ?dE = "Some \<lparr>d_type = ''ext-dn'', d_ipAddress = ''192.168.1.15'', d_port = 80,
                   d_httpProtocol = ''HTTP/2''\<rparr>"
  let ?A = "find (\<lambda>n. nf_type n = ''SMF'') (nfs (store w))"
  let ?B = "find (\<lambda>n. nf_type n = ''ext-dn'') (nfs (store w))"
  define p1 where "p1 = (case ?A of Some n \<Rightarrow> (n, w) | None \<Rightarrow> createNFFromTopology e ?tp ''SMF'' ?dS w)"
  define smf where "smf = fst p1"
  define w1 where "w1 = snd p1"
  define p2 where "p2 = (case ?B of Some n \<Rightarrow> (n, w1)
                          | None \<Rightarrow> createNFFromTopology e ?tp ''ext-dn'' ?dE w1)"
  define extDn where "extDn = fst p2"
  define w2 where "w2 = snd p2"
  have run: "autoConnectUPFToSMFAndExtDn e upf w
      = addConnection e (nf_id extDn) (nf_id upf) ''N6''
          (addConnection e (nf_id upf) (nf_id smf) ''N4'' w2)"
    unfolding w2_def extDn_def p2_def w1_def smf_def p1_def
    using upf
    by (simp add: autoConnectUPFToSMFAndExtDn_def Let_def split_beta getAllNFs_def)
  have s1: "find (\<lambda>n. nf_type n = ''SMF'') (nfs (store w1)) = Some smf
            \<and> connections (store w1) = connections (store w)
            \<and> (nfs (store w1) = nfs (store w) \<or> nfs (store w1) = nfs (store w) @ [smf])
            \<and> nf_type smf = ''SMF''"
  proof (cases ?A)
    case None
    then show ?thesis
      by (simp add: p1_def smf_def w1_def createNF_nfs createNF_type createNF_connections
          find_append_right)
  next
    case (Some n)
    then show ?thesis
      using find_Some_holds[OF Some] by (simp add: p1_def smf_def w1_def)
  qed
  have s2: "find (\<lambda>n. nf_type n = ''ext-dn'') (nfs (store w2)) = Some extDn
            \<and> find (\<lambda>n. nf_type n = ''SMF'') (nfs (store w2)) = Some smf
            \<and> connections (store w2) = connections (store w)
            \<and> (\<exists>ex. nfs (store w2) = nfs (store w) @ ex)"
  proof (cases ?B)
    case None
    have none1: "find (\<lambda>n. nf_type n = ''ext-dn'') (nfs (store w1)) = None"
      using s1 None by (auto simp: find_append_right)
    show ?thesis
      using s1 none1
      by (auto simp: p2_def extDn_def w2_def None createNF_nfs createNF_type createNF_connections
          find_append_right find_append_left)
  next
    case (Some n)
    have "find (\<lambda>n. nf_type n = ''ext-dn'') (nfs (store w1)) = Some n"
      using s1 Some by (auto simp: find_append_left)
    then show ?thesis
      using s1 by (auto simp: p2_def extDn_def w2_def Some)
  qed
  show ?thesis
    using run s2 by blast
qed








subsection \<open>Stabilization timers\<close>

lemma autoConnect_nfs_prefix:
  "\<exists>ex. nfs (store (autoConnectUPFToSMFAndExtDn e u w)) = nfs (store w) @ ex"
proof (cases "nf_type u = ''UPF''")
  case True
  then show ?thesis
    using autoConnect_decomp[OF True, of e w] by (auto simp: addConnection_nfs)
next
  case False
  then show ?thesis
    by (simp add: autoConnectUPFToSMFAndExtDn_def)
qed

lemma stabilize_absent:
  "getNFById i (store w) = None \<Longrightarrow> stabilize e (ComposeTimer i c) w = w"
  "getNFById i (store w) = None \<Longrightarrow> stabilize e (StartTimer i) w = w"
  by (simp_all add: stabilize_def)

lemma getNFById_removed: "getNFById i (removeNF i s) = None"
  by (simp add: getNFById_def removeNF_def find_filter_none)

lemma stabilize_present:
  assumes "getNFById i (store w) = Some n"
  shows "map_option status (getNFById i (store (stabilize e (ComposeTimer i c) w))) = Some ''stable''"
    and "map_option status (getNFById i (store (stabilize e (StartTimer i) w))) = Some ''stable''"
proof -
  have f: "find (\<lambda>x. nf_id x = i) (nfs (store w)) = Some n"
    using assms by (simp add: getNFById_def)
  then have i: "nf_id n = i"
    using find_Some_holds by fastforce
  have upd: "\<And>u::nf. nf_id u = i \<Longrightarrow>
      find (\<lambda>x. nf_id x = i) (nfs (updateNF i u (store w))) = Some u"
    using f by (simp add: updateNF_def find_replaceFirst)
  have wired: "\<And>(u::nf) v. nf_id u = i \<Longrightarrow>
      find (\<lambda>x. nf_id x = i)
        (nfs (store (autoConnectUPFToSMFAndExtDn e v (w\<lparr>store := updateNF i u (store w)\<rparr>)))) = Some u"
  proof -
    fix u :: nf and v
    assume "nf_id u = i"
    then have "find (\<lambda>x. nf_id x = i) (nfs (store (w\<lparr>store := updateNF i u (store w)\<rparr>))) = Some u"
      using upd by simp
    then show "find (\<lambda>x. nf_id x = i)
        (nfs (store (autoConnectUPFToSMFAndExtDn e v (w\<lparr>store := updateNF i u (store w)\<rparr>)))) = Some u"
      using autoConnect_nfs_prefix[of e v "w\<lparr>store := updateNF i u (store w)\<rparr>"]
      by (auto simp: find_append_left)
  qed
  show "map_option status (getNFById i (store (stabilize e (ComposeTimer i c) w))) = Some ''stable''"
    using assms i upd wired
    by (simp add: stabilize_def Let_def getNFById_def)
  show "map_option status (getNFById i (store (stabilize e (StartTimer i) w))) = Some ''stable''"
    using assms i upd wired
    by (simp add: stabilize_def Let_def getNFById_def)
qed

text \<open>
  Claim C2, as amended. The callback of a stabilization timer re-reads the entity by the
  id it captured. If the store has no entity of that id, in particular after the entity
  was deleted, the callback changes nothing (nothing is resurrected, and the callback
  returns). If the entity is still there it is written \<open>stable\<close> whatever its status is at
  that moment, \<open>stopped\<close> included.
\<close>

theorem stale_timer_checks_existence_only:
  "(getNFById i (store w) = None
      \<longrightarrow> stabilize e (ComposeTimer i c) w = w \<and> stabilize e (StartTimer i) w = w)
   \<and> stabilize e (ComposeTimer i c) (w\<lparr>store := removeNF i (store w)\<rparr>) = w\<lparr>store := removeNF i (store w)\<rparr>
   \<and> stabilize e (StartTimer i) (w\<lparr>store := removeNF i (store w)\<rparr>) = w\<lparr>store := removeNF i (store w)\<rparr>
   \<and> (getNFById i (store w) \<noteq> None
      \<longrightarrow> map_option status (getNFById i (store (stabilize e (ComposeTimer i c) w))) = Some ''stable''
          \<and> map_option status (getNFById i (store (stabilize e (StartTimer i) w))) = Some ''stable'')"
proof (intro conjI impI)
  assume "getNFById i (store w) = None"
  then show "stabilize e (ComposeTimer i c) w = w" "stabilize e (StartTimer i) w = w"
    by (simp_all add: stabilize_absent)
next
  show "stabilize e (ComposeTimer i c) (w\<lparr>store := removeNF i (store w)\<rparr>) = w\<lparr>store := removeNF i (store w)\<rparr>"
    by (rule stabilize_absent) (simp add: getNFById_removed)
  show "stabilize e (StartTimer i) (w\<lparr>store := removeNF i (store w)\<rparr>) = w\<lparr>store := removeNF i (store w)\<rparr>"
    by (rule stabilize_absent) (simp add: getNFById_removed)
next
  assume "getNFById i (store w) \<noteq> None"
  then obtain n where n: "getNFById i (store w) = Some n"
    by blast
  show "map_option status (getNFById i (store (stabilize e (ComposeTimer i c) w))) = Some ''stable''"
    by (rule stabilize_present(1)[OF n])
  show "map_option status (getNFById i (store (stabilize e (StartTimer i) w))) = Some ''stable''"
    by (rule stabilize_present(2)[OF n])
qed

lemmas single_eval = dockerComposeUpSingleNF_def serviceToNFTypeMap_def getDefaultNFConfigurations_def
  specCreateNetworkFunction_def freshId_def nextRandom_def Let_def startedLine_def networkCreatedLine_def

lemma up_nrf_world:
  "fst (dockerComposeUpSingleNF (envWith None) ''oai-nrf'' world0) =
     \<lparr>store = \<lparr>nfs = [\<lparr>nf_id = ''n'', nf_type = ''NRF'', nf_name = ''NRF-1'',
                       config = \<lparr>ipAddress = ''192.168.1.10'', port = 8080, httpProtocol = ''HTTP/2''\<rparr>,
                       status = ''starting'', statusTimestamp = 1000, createdAt = Some 1000\<rparr>],
               connections = [], buses = [], busConnections = []\<rparr>,
      oaiWorkshopNetworkExists = True, oaiWorkshopCreatedTime = Some 1000,
      timers = [ComposeTimer ''n'' (Some 1000)], draws = Suc 0\<rparr>"
  by (simp add: single_eval sample_eval store_eval text_eval)

text \<open>
  Witness for C2: the NRF is brought up (its timer is pending) and then deleted; the timer
  fires on a store without it and leaves the store empty. Fired while the NRF is there,
  the same timer makes it stable.
\<close>

theorem stale_timer_checks_existence_only_witness:
  "timers (fst (dockerComposeUpSingleNF (envWith None) ''oai-nrf'' world0)) = [ComposeTimer ''n'' (Some 1000)]
   \<and> getNFById ''n'' (store (fst (dockerComposeUpSingleNF (envWith None) ''oai-nrf'' world0))) \<noteq> None
   \<and> nfs (store (stabilize (envWith None) (ComposeTimer ''n'' (Some 1000))
        ((fst (dockerComposeUpSingleNF (envWith None) ''oai-nrf'' world0))
           \<lparr>store := removeNF ''n'' (store (fst (dockerComposeUpSingleNF (envWith None) ''oai-nrf'' world0)))\<rparr>)))
       = []
   \<and> map_option status (getNFById ''n'' (store (stabilize (envWith None) (ComposeTimer ''n'' (Some 1000))
        (fst (dockerComposeUpSingleNF (envWith None) ''oai-nrf'' world0))))) = Some ''stable''"
proof -
  let ?w = "fst (dockerComposeUpSingleNF (envWith None) ''oai-nrf'' world0)"
  have a: "timers ?w = [ComposeTimer ''n'' (Some 1000)]"
    by (simp add: up_nrf_world)
  have b: "getNFById ''n'' (store ?w) \<noteq> None"
    by (simp add: up_nrf_world getNFById_def)
  have c: "nfs (removeNF ''n'' (store ?w)) = []"
    by (simp add: up_nrf_world removeNF_def)
  show ?thesis
    using stale_timer_checks_existence_only[of "''n''" ?w "envWith None" "Some 1000"] a b c
    by simp
qed

text \<open>
  Counterexample to C2 as stated: the NRF is brought up, then stopped with \<open>docker stop\<close>
  before its timer fires; the store shows it \<open>stopped\<close>. When the timer fires the NRF is
  \<open>stable\<close>.
\<close>

theorem stopped_nf_restabilized_counterexample:
  "map status (nfs (store (fst (dockerStop (envWith None) ''oai-nrf''
        (fst (dockerComposeUpSingleNF (envWith None) ''oai-nrf'' world0)))))) = [''stopped'']
   \<and> map status (nfs (store (fireTimer (envWith None) (fst (dockerStop (envWith None) ''oai-nrf''
        (fst (dockerComposeUpSingleNF (envWith None) ''oai-nrf'' world0))))))) = [''stable'']"
  unfolding up_nrf_world
  by (simp add: dockerStop_def fireTimer_def stabilize_def startStopServiceMap_def Let_def
      sample_eval store_eval text_eval)

subsection \<open>Bringing up all services\<close>

lemma replaceFirst_append_fresh:
  "\<forall>x \<in> set xs. \<not> P x \<Longrightarrow> P y \<Longrightarrow> replaceFirst P z (xs @ [y]) = xs @ [z]"
  by (induction xs) auto

lemma createDefaultNFsLoop_nfs:
  assumes mgr: "managerCreates (e_createNetworkFunction e)"
  shows "\<exists>new. nfs (fst (createDefaultNFsLoop e cfgs s)) = nfs s @ new
           \<and> map (\<lambda>n. (nf_type n, ipAddress (config n), port (config n))) new
               = map (\<lambda>d. (d_type d, d_ipAddress d, d_port d)) cfgs"
proof (induction cfgs arbitrary: s)
  case Nil
  then show ?case
    by simp
next
  case (Cons cfg rest)
  obtain n0 where n0: "e_createNetworkFunction e (d_type cfg) s = Some (n0, s\<lparr>nfs := nfs s @ [n0]\<rparr>)"
    and ty: "nf_type n0 = d_type cfg"
    and fresh: "nf_id n0 \<notin> set (map nf_id (nfs s))"
    using mgr unfolding managerCreates_def by blast
  define n where "n = n0\<lparr>config := \<lparr>ipAddress = d_ipAddress cfg, port = d_port cfg,
                                     httpProtocol = orElse (d_httpProtocol cfg) ''HTTP/2''\<rparr>,
                         createdAt := Some (e_now e)\<rparr>"
  define s2 where "s2 = updateNF (nf_id n) n (s\<lparr>nfs := nfs s @ [n0]\<rparr>)"
  have "\<forall>x \<in> set (nfs s). \<not> nf_id x = nf_id n0"
    by (metis fresh image_eqI set_map)
  then have s2: "nfs s2 = nfs s @ [n]"
    by (simp add: s2_def updateNF_def n_def replaceFirst_append_fresh)
  have step: "fst (createDefaultNFsLoop e (cfg # rest) s) = fst (createDefaultNFsLoop e rest s2)"
    by (simp add: n0 Let_def split_beta s2_def n_def)
  obtain new where new: "nfs (fst (createDefaultNFsLoop e rest s2)) = nfs s2 @ new"
    and tys: "map (\<lambda>n. (nf_type n, ipAddress (config n), port (config n))) new
               = map (\<lambda>d. (d_type d, d_ipAddress d, d_port d)) rest"
    using Cons.IH[of s2] by blast
  have "nfs (fst (createDefaultNFsLoop e (cfg # rest) s)) = nfs s @ (n # new)"
    unfolding step new s2 by simp
  moreover have "map (\<lambda>n. (nf_type n, ipAddress (config n), port (config n))) (n # new)
      = map (\<lambda>d. (d_type d, d_ipAddress d, d_port d)) (cfg # rest)"
    by (simp add: tys n_def ty)
  ultimately show ?case
    by blast
qed

lemma startedLoop_store: "store (snd (startedLoop e ns w)) = store w"
  by (induction ns arbitrary: w) (simp_all add: Let_def split_beta nextRandom_def)

lemma fallback_store:
  assumes "nfs (store w) = []" and "e_fetch e = None"
  shows "store (fst (dockerComposeUp e w)) = fst (createDefaultNFsLoop e getDefaultNFConfigurations (store w))"
  using assms
  by (simp add: dockerComposeUp_def Let_def split_beta getAllNFs_def createDefaultNFs_def)

lemma import_store:
  assumes "nfs (store w) = []" and "e_fetch e = Some topology"
  shows "nfs (store (fst (dockerComposeUp e w)))
           = map (\<lambda>n. n\<lparr>createdAt := Some (e_now e)\<rparr>)
               (filter (\<lambda>n. nf_type n \<noteq> ''gNB'' \<and> nf_type n \<noteq> ''UE'') (nfs topology))"
  using assms
  by (simp add: dockerComposeUp_def Let_def split_beta getAllNFs_def importData_def
      startedLoop_store filterTopology_def)

text \<open>
  Claim C9. On a store without NFs: when the fixture cannot be fetched and
  \<open>createNetworkFunction\<close> creates what it is asked for, \<open>dockerComposeUp\<close> leaves one NF per
  default configuration, in the list's order and with its address and port, so the store
  holds a gNB and a UE; when the fixture is fetched the store holds the fixture's NFs
  without those of type gNB or UE, so it holds neither.
\<close>

theorem fallback_creates_gnb_and_ue:
  assumes "nfs (store w) = []"
  shows "(e_fetch e = None \<and> managerCreates (e_createNetworkFunction e) \<longrightarrow>
            map (\<lambda>n. (nf_type n, ipAddress (config n), port (config n)))
                (nfs (store (fst (dockerComposeUp e w))))
              = map (\<lambda>d. (d_type d, d_ipAddress d, d_port d)) getDefaultNFConfigurations
          \<and> ''gNB'' \<in> set (map nf_type (nfs (store (fst (dockerComposeUp e w)))))
          \<and> ''UE'' \<in> set (map nf_type (nfs (store (fst (dockerComposeUp e w))))))
       \<and> (e_fetch e \<noteq> None \<longrightarrow>
            ''gNB'' \<notin> set (map nf_type (nfs (store (fst (dockerComposeUp e w)))))
          \<and> ''UE'' \<notin> set (map nf_type (nfs (store (fst (dockerComposeUp e w))))))"
proof (intro conjI impI)
  assume a: "e_fetch e = None \<and> managerCreates (e_createNetworkFunction e)"
  then obtain new where
    new: "nfs (fst (createDefaultNFsLoop e getDefaultNFConfigurations (store w))) = nfs (store w) @ new"
    and tys: "map (\<lambda>n. (nf_type n, ipAddress (config n), port (config n))) new
               = map (\<lambda>d. (d_type d, d_ipAddress d, d_port d)) getDefaultNFConfigurations"
    using createDefaultNFsLoop_nfs[of e getDefaultNFConfigurations "store w"] by blast
  have st: "nfs (store (fst (dockerComposeUp e w))) = new"
    using fallback_store[OF assms, of e] a new assms by simp
  show all: "map (\<lambda>n. (nf_type n, ipAddress (config n), port (config n)))
                (nfs (store (fst (dockerComposeUp e w))))
              = map (\<lambda>d. (d_type d, d_ipAddress d, d_port d)) getDefaultNFConfigurations"
    by (simp add: st tys)
  have "map nf_type (nfs (store (fst (dockerComposeUp e w))))
          = map fst (map (\<lambda>n. (nf_type n, ipAddress (config n), port (config n)))
                (nfs (store (fst (dockerComposeUp e w)))))"
    by (simp add: comp_def)
  then have types: "map nf_type (nfs (store (fst (dockerComposeUp e w))))
          = map d_type getDefaultNFConfigurations"
    unfolding all by (simp add: comp_def)
  show "''gNB'' \<in> set (map nf_type (nfs (store (fst (dockerComposeUp e w)))))"
    unfolding types by (simp add: getDefaultNFConfigurations_def)
  show "''UE'' \<in> set (map nf_type (nfs (store (fst (dockerComposeUp e w)))))"
    unfolding types by (simp add: getDefaultNFConfigurations_def)
next
  assume "e_fetch e \<noteq> None"
  then obtain topology where t: "e_fetch e = Some topology"
    by blast
  show "''gNB'' \<notin> set (map nf_type (nfs (store (fst (dockerComposeUp e w)))))"
    by (auto simp: import_store[OF assms t])
  show "''UE'' \<notin> set (map nf_type (nfs (store (fst (dockerComposeUp e w)))))"
    by (auto simp: import_store[OF assms t])
qed

lemma foldr_max_bound: "x \<in> set xs \<Longrightarrow> x \<le> foldr max xs (0::nat)"
  by (induction xs) auto

lemma freshId_fresh: "freshId s \<notin> set (map nf_id (nfs s))"
proof
  assume "freshId s \<in> set (map nf_id (nfs s))"
  then obtain n where n: "n \<in> set (nfs s)" and eq: "nf_id n = freshId s"
    by auto
  have "length (nf_id n) \<le> foldr max (map (\<lambda>n. length (nf_id n)) (nfs s)) 0"
    using n by (intro foldr_max_bound) auto
  moreover have "length (freshId s) = Suc (foldr max (map (\<lambda>n. length (nf_id n)) (nfs s)) 0)"
    by (simp add: freshId_def)
  ultimately show False
    using eq by simp
qed

lemma spec_manager_creates: "managerCreates specCreateNetworkFunction"
  unfolding managerCreates_def
  using freshId_fresh
  by (auto simp: specCreateNetworkFunction_def Let_def addNF_def)

lemma fixture_filtered_types:
  "map nf_type (filter (\<lambda>n. nf_type n \<noteq> ''gNB'' \<and> nf_type n \<noteq> ''UE'') fixtureNFs)
     = [''NRF'', ''AMF'', ''SMF'', ''UPF'', ''AUSF'', ''UDM'', ''UDR'', ''PCF'', ''NSSF'', ''MySQL'', ''ext-dn'']"
  by (simp add: fixtureNFs_def mkNF_def)

text \<open>
  Witness for C9: the empty store, once with the fetch failing and the manager modelled
  from the specification, once with \<open>fixture1\<close>.
\<close>

theorem fallback_creates_gnb_and_ue_witness:
  "nfs (store world0) = []
   \<and> e_fetch (envWith None) = None \<and> managerCreates (e_createNetworkFunction (envWith None))
   \<and> map nf_type (nfs (store (fst (dockerComposeUp (envWith None) world0))))
       = [''NRF'', ''AMF'', ''SMF'', ''UPF'', ''AUSF'', ''UDM'', ''UDR'', ''PCF'', ''NSSF'', ''MySQL'',
          ''gNB'', ''UE'']
   \<and> e_fetch (envWith (Some fixture1)) \<noteq> None
   \<and> map nf_type (nfs (store (fst (dockerComposeUp (envWith (Some fixture1)) world0))))
       = [''NRF'', ''AMF'', ''SMF'', ''UPF'', ''AUSF'', ''UDM'', ''UDR'', ''PCF'', ''NSSF'', ''MySQL'',
          ''ext-dn'']"
proof -
  have e: "nfs (store world0) = []"
    by (simp add: world0_def emptyTopology_def)
  have f: "e_fetch (envWith None) = None" "e_fetch (envWith (Some fixture1)) = Some fixture1"
    "e_createNetworkFunction (envWith None) = specCreateNetworkFunction"
    by (simp_all add: envWith_def)
  have m: "managerCreates (e_createNetworkFunction (envWith None))"
    by (simp add: f spec_manager_creates)
  from fallback_creates_gnb_and_ue[OF e, of "envWith None"] f(1) m
  have "map (\<lambda>n. (nf_type n, ipAddress (config n), port (config n)))
            (nfs (store (fst (dockerComposeUp (envWith None) world0))))
          = map (\<lambda>d. (d_type d, d_ipAddress d, d_port d)) getDefaultNFConfigurations"
    by blast
  then have "map fst (map (\<lambda>n. (nf_type n, ipAddress (config n), port (config n)))
            (nfs (store (fst (dockerComposeUp (envWith None) world0)))))
          = map fst (map (\<lambda>d. (d_type d, d_ipAddress d, d_port d)) getDefaultNFConfigurations)"
    by simp
  then have a: "map nf_type (nfs (store (fst (dockerComposeUp (envWith None) world0))))
       = [''NRF'', ''AMF'', ''SMF'', ''UPF'', ''AUSF'', ''UDM'', ''UDR'', ''PCF'', ''NSSF'', ''MySQL'',
          ''gNB'', ''UE'']"
    by (simp add: comp_def getDefaultNFConfigurations_def)
  have b: "map nf_type (nfs (store (fst (dockerComposeUp (envWith (Some fixture1)) world0))))
       = [''NRF'', ''AMF'', ''SMF'', ''UPF'', ''AUSF'', ''UDM'', ''UDR'', ''PCF'', ''NSSF'', ''MySQL'',
          ''ext-dn'']"
  proof -
    have "nfs (store (fst (dockerComposeUp (envWith (Some fixture1)) world0)))
        = map (\<lambda>n. n\<lparr>createdAt := Some (e_now (envWith (Some fixture1)))\<rparr>)
            (filter (\<lambda>n. nf_type n \<noteq> ''gNB'' \<and> nf_type n \<noteq> ''UE'') (nfs fixture1))"
      by (rule import_store[OF e f(2)])
    then show ?thesis
      using fixture_filtered_types by (simp add: comp_def fixture1_def)
  qed
  show ?thesis
    using e f m a b by simp
qed

lemmas up_eval = dockerComposeUp_def createDefaultNFs_def getDefaultNFConfigurations_def
  filterTopology_def ensureNFConnectedToBus_def specCreateNetworkFunction_def freshId_def
  nextRandom_def randomSuffix_def startedLine_def networkCreatedLine_def serviceNameOf_def
  serviceNameMap_def Let_def

lemma first_up_world: "fst (dockerComposeUp (envWith (Some fixture1)) world0) = worldImported"
  by (simp add: up_eval sample_eval store_eval text_eval fixture1_def fixtureNFs_def
      worldImported_def)

lemma compose_up_missing:
  assumes "nfs (store w) \<noteq> []"
    and "filter (\<lambda>c. d_type c \<notin> set (map nf_type (nfs (store w)))) getDefaultNFConfigurations = cfgs"
    and "cfgs \<noteq> []"
  shows "dockerComposeUp e w =
     (fst (createMissingLoop e (map_option filterTopology (e_fetch e)) cfgs w),
      [(''[+] Running '' @ showNat (length cfgs) @ ''/'' @ showNat (length cfgs), ''info'')]
      @ snd (createMissingLoop e (map_option filterTopology (e_fetch e)) cfgs w)
      @ [('''', ''blank''),
         (''Started '' @ showNat (length cfgs) @ '' new Network Function(s)'', ''success'')])"
  using assms
  by (simp add: dockerComposeUp_def Let_def split_beta getAllNFs_def)

lemma imported_missing:
  "filter (\<lambda>c. d_type c \<notin> set (map nf_type (nfs (store worldImported)))) getDefaultNFConfigurations
   = [\<lparr>d_type = ''gNB'', d_ipAddress = ''192.168.1.21'', d_port = 8089, d_httpProtocol = ''HTTP/2''\<rparr>,
      \<lparr>d_type = ''UE'', d_ipAddress = ''192.168.1.22'', d_port = 8090, d_httpProtocol = ''HTTP/2''\<rparr>]"
  by (simp add: worldImported_def fixtureNFs_def mkNF_def getDefaultNFConfigurations_def)

lemma fixture1_filtered:
  "map_option filterTopology (e_fetch (envWith (Some fixture1)))
     = Some \<lparr>nfs = take 11 fixtureNFs, connections = [], buses = [], busConnections = []\<rparr>"
  by (simp add: envWith_def filterTopology_def fixture1_def fixtureNFs_def mkNF_def Let_def)

lemma imported_missing_loop:
  "createMissingLoop (envWith (Some fixture1))
     (Some \<lparr>nfs = take 11 fixtureNFs, connections = [], buses = [], busConnections = []\<rparr>)
     [\<lparr>d_type = ''gNB'', d_ipAddress = ''192.168.1.21'', d_port = 8089, d_httpProtocol = ''HTTP/2''\<rparr>,
      \<lparr>d_type = ''UE'', d_ipAddress = ''192.168.1.22'', d_port = 8090, d_httpProtocol = ''HTTP/2''\<rparr>]
     worldImported
   = (worldImported
        \<lparr>store := (store worldImported)
           \<lparr>nfs := nfs (store worldImported)
              @ [\<lparr>nf_id = ''nnnnnnnnn'', nf_type = ''gNB'', nf_name = ''gNB-1'',
                  config = \<lparr>ipAddress = ''192.168.1.21'', port = 8089, httpProtocol = ''HTTP/2''\<rparr>,
                  status = ''starting'', statusTimestamp = 1000, createdAt = Some 1000\<rparr>,
                 \<lparr>nf_id = ''nnnnnnnnnn'', nf_type = ''UE'', nf_name = ''UE-1'',
                  config = \<lparr>ipAddress = ''192.168.1.22'', port = 8090, httpProtocol = ''HTTP/2''\<rparr>,
                  status = ''starting'', statusTimestamp = 1000, createdAt = Some 1000\<rparr>]\<rparr>,
         timers := [ComposeTimer ''nnnnnnnnn'' (Some 1000), ComposeTimer ''nnnnnnnnnn'' (Some 1000)],
         draws := 13\<rparr>,
      [startedLine (envWith (Some fixture1)) ''gnb'' 0,
       startedLine (envWith (Some fixture1)) ''ue'' 0])"
  by (simp add: up_eval sample_eval store_eval text_eval fixtureNFs_def worldImported_def)

lemma bring_up_all_noop_when_complete:
  assumes "nfs (store w) \<noteq> []"
    and "\<forall>c \<in> set getDefaultNFConfigurations. d_type c \<in> set (map nf_type (nfs (store w)))"
  shows "store (fst (dockerComposeUp e w)) = store w"
    and "timers (fst (dockerComposeUp e w)) = timers w"
    and "hd (snd (dockerComposeUp e w)) = (''All Network Functions are already running!'', ''success'')"
proof -
  have "filter (\<lambda>c. d_type c \<notin> set (map nf_type (nfs (store w)))) getDefaultNFConfigurations = []"
    using assms(2) by (simp add: filter_empty_conv)
  then have run: "dockerComposeUp e w =
      (w\<lparr>oaiWorkshopNetworkExists := True,
         oaiWorkshopCreatedTime :=
           (if \<not> truthyTime (oaiWorkshopCreatedTime w) then Some (e_now e)
            else oaiWorkshopCreatedTime w)\<rparr>,
       [(''All Network Functions are already running!'', ''success''),
        ('''', ''blank''),
        (''Running services:'', ''info'')]
       @ map (\<lambda>n. (''  - '' @ padEnd 16 (serviceNameOf (nf_type n)) @ '' ''
                      @ (if status n = ''stable'' then ''(healthy)'' else ''(starting)''),
                    ''success'')) (nfs (store w)))"
    using assms(1) by (simp add: dockerComposeUp_def Let_def getAllNFs_def)
  show "store (fst (dockerComposeUp e w)) = store w"
    "timers (fst (dockerComposeUp e w)) = timers w"
    "hd (snd (dockerComposeUp e w)) = (''All Network Functions are already running!'', ''success'')"
    by (simp_all add: run)
qed

text \<open>
  Claim C1, at its failing input. The first \<open>docker compose up -d\<close> on the empty store
  imports \<open>fixture1\<close> without its gNB and UE and leaves the eleven other NFs. The second
  one, straight after it, finds the default types gNB and UE missing: it reports
  "Running 2/2", creates a gNB and a UE in status \<open>starting\<close> and arms a stabilization
  timer for each.
\<close>

theorem second_bring_up_creates_gnb_and_ue:
  "fst (dockerComposeUp (envWith (Some fixture1)) world0) = worldImported
   \<and> map nf_type (nfs (store worldImported))
       = [''NRF'', ''AMF'', ''SMF'', ''UPF'', ''AUSF'', ''UDM'', ''UDR'', ''PCF'', ''NSSF'', ''MySQL'',
          ''ext-dn'']
   \<and> map (\<lambda>n. (nf_type n, status n))
         (drop 11 (nfs (store (fst (dockerComposeUp (envWith (Some fixture1)) worldImported)))))
       = [(''gNB'', ''starting''), (''UE'', ''starting'')]
   \<and> length (timers (fst (dockerComposeUp (envWith (Some fixture1)) worldImported))) = 2
   \<and> hd (snd (dockerComposeUp (envWith (Some fixture1)) worldImported)) = (''[+] Running 2/2'', ''info'')"
proof -
  have a: "map nf_type (nfs (store worldImported))
       = [''NRF'', ''AMF'', ''SMF'', ''UPF'', ''AUSF'', ''UDM'', ''UDR'', ''PCF'', ''NSSF'', ''MySQL'',
          ''ext-dn'']"
    by (simp add: worldImported_def fixtureNFs_def mkNF_def)
  have ne: "nfs (store worldImported) \<noteq> []"
    by (simp add: worldImported_def fixtureNFs_def)
  have len: "length (nfs (store worldImported)) = 11"
    by (simp add: worldImported_def fixtureNFs_def)
  note run = compose_up_missing[OF ne imported_missing, of "envWith (Some fixture1)",
      unfolded fixture1_filtered imported_missing_loop]
  have b: "map (\<lambda>n. (nf_type n, status n))
         (drop 11 (nfs (store (fst (dockerComposeUp (envWith (Some fixture1)) worldImported)))))
       = [(''gNB'', ''starting''), (''UE'', ''starting'')]"
    using len by (simp add: run)
  have c: "length (timers (fst (dockerComposeUp (envWith (Some fixture1)) worldImported))) = 2"
    by (simp add: run)
  have d: "hd (snd (dockerComposeUp (envWith (Some fixture1)) worldImported)) = (''[+] Running 2/2'', ''info'')"
    by (simp add: run text_eval)
  show ?thesis
    using first_up_world a b c d by blast
qed

text \<open>
  The same holds for every fixture and every manager: after an import that left some NF,
  the next \<open>docker compose up -d\<close> never takes the already-running return, since the
  imported store has no gNB.
\<close>

lemma second_bring_up_after_import_not_noop:
  assumes empty: "nfs (store w) = []"
    and fetch: "e_fetch e = Some topology"
    and some: "filter (\<lambda>n. nf_type n \<noteq> ''gNB'' \<and> nf_type n \<noteq> ''UE'') (nfs topology) \<noteq> []"
  shows "hd (snd (dockerComposeUp e' (fst (dockerComposeUp e w))))
           \<noteq> (''All Network Functions are already running!'', ''success'')"
proof -
  let ?w1 = "fst (dockerComposeUp e w)"
  let ?missing = "filter (\<lambda>c. d_type c \<notin> set (map nf_type (nfs (store ?w1)))) getDefaultNFConfigurations"
  have ne: "nfs (store ?w1) \<noteq> []"
    using some by (simp add: import_store[OF empty fetch])
  have "''gNB'' \<notin> set (map nf_type (nfs (store ?w1)))"
    by (auto simp: import_store[OF empty fetch])
  moreover have "\<lparr>d_type = ''gNB'', d_ipAddress = ''192.168.1.21'', d_port = 8089,
                  d_httpProtocol = ''HTTP/2''\<rparr> \<in> set getDefaultNFConfigurations"
    by (simp add: getDefaultNFConfigurations_def)
  ultimately have "\<lparr>d_type = ''gNB'', d_ipAddress = ''192.168.1.21'', d_port = 8089,
                    d_httpProtocol = ''HTTP/2''\<rparr> \<in> set ?missing"
    by simp
  then have mne: "?missing \<noteq> []"
    by (metis empty_iff empty_set)
  show ?thesis
    by (simp add: compose_up_missing[OF ne refl mne, of e'])
qed

end
